theory Spec2Isabelle
  imports Main "HOL-Library.Sublist"
begin

section \<open>Python strings and values used by the data set modules\<close>

text \<open>
  Strings are lists of 8-bit characters. Data set names, volume serials and the
  command texts of the modules are ASCII, and the case functions below act on
  the ASCII letters only, as \<^verbatim>\<open>str.upper\<close> does on that range.
\<close>

definition dq :: char where
  "dq = CHR 0x22"

definition sq :: char where
  "sq = CHR 0x27"

definition bs :: char where
  "bs = CHR 0x5C"

definition upper_chars :: string where
  "upper_chars = ''ABCDEFGHIJKLMNOPQRSTUVWXYZ''"

definition lower_chars :: string where
  "lower_chars = ''abcdefghijklmnopqrstuvwxyz''"

definition digit_chars :: string where
  "digit_chars = ''0123456789''"

definition upper_char :: "char \<Rightarrow> char" where
  "upper_char c = (case map_of (zip lower_chars upper_chars) c of Some u \<Rightarrow> u | None \<Rightarrow> c)"

definition lower_char :: "char \<Rightarrow> char" where
  "lower_char c = (case map_of (zip upper_chars lower_chars) c of Some l \<Rightarrow> l | None \<Rightarrow> c)"

definition upper :: "string \<Rightarrow> string" where
  "upper s = map upper_char s"

text \<open>\<^verbatim>\<open>needle in hay\<close> on strings.\<close>

fun contains :: "string \<Rightarrow> string \<Rightarrow> bool" where
  "contains needle [] = (needle = [])"
| "contains needle (c # cs) = (prefix needle (c # cs) \<or> contains needle cs)"

text \<open>\<^verbatim>\<open>str(n)\<close> for an integer.\<close>

fun str_nat :: "nat \<Rightarrow> string" where
  "str_nat n = (if n < 10 then [digit_chars ! n] else str_nat (n div 10) @ [digit_chars ! (n mod 10)])"

definition str_int :: "int \<Rightarrow> string" where
  "str_int i = (if i < 0 then CHR ''-'' # str_nat (nat (- i)) else str_nat (nat i))"

text \<open>\<^verbatim>\<open>sep.join(xs)\<close>.\<close>

fun join :: "string \<Rightarrow> string list \<Rightarrow> string" where
  "join sep [] = []"
| "join sep [x] = x"
| "join sep (x # y # ys) = x @ sep @ join sep (y # ys)"

section \<open>Exceptions\<close>

text \<open>
  Each exception class of \<^verbatim>\<open>data_set.py\<close> is a constructor carrying the arguments of
  its \<^verbatim>\<open>__init__\<close>; the return code of \<^verbatim>\<open>DatasetCatalogError\<close> is kept as the text that is
  formatted into the message, since the callers pass both integers and \<^verbatim>\<open>"-1"\<close>.
  \<^verbatim>\<open>ValueError\<close> carries its message; \<^verbatim>\<open>IndexError\<close> is what \<^verbatim>\<open>volumes[0]\<close> raises on an
  empty list.
\<close>

datatype error =
    DatasetDeleteError string int
  | DatasetCreateError string int string
  | DatasetCatalogError string "string list" string string
  | DatasetUncatalogError string int
  | DatasetWriteError string int
  | DatasetFormatError string int string
  | ValueError string
  | IndexError

section \<open>Argument validators of zos_data_set.py\<close>

text \<open>
  The \<^verbatim>\<open>dependencies\<close> dictionary, by the keys the validators read with
  \<^verbatim>\<open>dependencies.get\<close>: a missing key and a \<^verbatim>\<open>None\<close> value are both \<open>None\<close>.
  \<open>dep_batch\<close> is the truth value of \<^verbatim>\<open>dependencies.get("batch")\<close>.
\<close>

record dependencies =
  dep_batch :: bool
  dep_state :: "string option"
  dep_type :: "string option"
  dep_tmp_hlq :: "string option"
  dep_record_format :: "string option"

definition DEFAULT_RECORD_LENGTHS :: "(string \<times> int) list" where
  "DEFAULT_RECORD_LENGTHS =
     [(''FB'', 80), (''FBA'', 80), (''VB'', 137), (''VBA'', 137), (''U'', 0)]"

text \<open>\<^verbatim>\<open>DEFAULT_RECORD_LENGTHS.get(dependencies.get("record_format"), None)\<close>.\<close>

definition default_record_length :: "string option \<Rightarrow> int option" where
  "default_record_length fmt =
     (case fmt of None \<Rightarrow> None | Some f \<Rightarrow> map_of DEFAULT_RECORD_LENGTHS f)"

text \<open>
  \<^verbatim>\<open>record_length(contents, dependencies)\<close>. The module declares the argument with
  the parser's integer type, so \<open>contents\<close> is an integer or \<^verbatim>\<open>None\<close> and
  \<^verbatim>\<open>int(contents)\<close> is the identity.
\<close>

definition record_length :: "int option \<Rightarrow> dependencies \<Rightarrow> error + int option" where
  "record_length contents deps =
     (if dep_state deps = Some ''absent'' then Inr None
      else
        (let contents' =
               (case contents of
                  None \<Rightarrow> default_record_length (dep_record_format deps)
                | Some c \<Rightarrow> Some c)
         in case contents' of
              None \<Rightarrow> Inr None
            | Some c \<Rightarrow>
                if \<not> list_all (\<lambda>d. d \<in> set digit_chars) (str_int c) \<or> (c < 0 \<or> c > 32768)
                then Inl (ValueError (''Value '' @ str_int c @
                  '' is invalid for record_length argument. record_length must be between 0 and 32768 bytes.''))
                else Inr (Some c)))"

section \<open>More string functions\<close>

definition nl :: char where
  "nl = CHR 0x0A"

text \<open>
  \<^verbatim>\<open>s.split(d)\<close> for a separator \<open>d\<close>: the pieces between the non-overlapping
  occurrences of \<open>d\<close>, found from the left. The separators of the module are
  non-empty constants (Python raises on an empty one; here an empty separator
  never matches).
\<close>

fun py_split_from :: "string \<Rightarrow> string \<Rightarrow> string \<Rightarrow> string list" where
  "py_split_from d acc [] = [rev acc]"
| "py_split_from d acc (c # cs) =
     (if d \<noteq> [] \<and> prefix d (c # cs)
      then rev acc # py_split_from d [] (drop (length d - 1) cs)
      else py_split_from d (c # acc) cs)"

definition py_split :: "string \<Rightarrow> string \<Rightarrow> string list" where
  "py_split d s = py_split_from d [] s"

text \<open>
  \<^verbatim>\<open>x[:x.find(' ')]\<close>: up to the first blank; \<^verbatim>\<open>find\<close> answers -1 when there is
  none, and \<^verbatim>\<open>x[:-1]\<close> drops the last character.
\<close>

definition upto_blank :: "string \<Rightarrow> string" where
  "upto_blank x =
     (if CHR '' '' \<in> set x then takeWhile (\<lambda>c. c \<noteq> CHR '' '') x else butlast x)"

text \<open>\<^verbatim>\<open>"{line: <{max_len}}".format(line=s, max_len=n)\<close>: blanks on the right up to width \<open>n\<close>.\<close>

definition ljust :: "nat \<Rightarrow> string \<Rightarrow> string" where
  "ljust n s = s @ replicate (n - length s) (CHR '' '')"

section \<open>The managed system\<close>

text \<open>
  Everything the module asks of the system goes through the command executor
  (\<^verbatim>\<open>module.run_command\<close>), the ZOAU \<^verbatim>\<open>datasets\<close> API, the \<^verbatim>\<open>vtoc\<close> helpers, Python's
  \<^verbatim>\<open>re.search\<close> and \<^verbatim>\<open>tempfile\<close>. None of them is part of the sources at hand, so they are
  the fields of a record over an arbitrary type \<open>'w\<close> of system states: each
  effectful one answers from the current state and gives the next one. A volume
  table entry is the dictionary the \<^verbatim>\<open>vtoc\<close> helpers return.
\<close>

type_synonym vtoc_entry = "(string \<times> string) list"

text \<open>The keyword arguments that \<^verbatim>\<open>DataSet.create\<close> hands to \<^verbatim>\<open>datasets._create\<close>.\<close>

record zoau_args =
  z_name :: string
  z_type :: string
  z_primary_space :: "string option"
  z_secondary_space :: "string option"
  z_record_format :: "string option"
  z_storage_class_name :: "string option"
  z_data_class_name :: "string option"
  z_management_class_name :: "string option"
  z_record_length :: "int option"
  z_key_offset :: "int option"
  z_key_length :: "int option"
  z_block_size :: "int option"
  z_directory_blocks :: "int option"
  z_volumes :: "string option"
  z_tmp_hlq :: "string option"
  z_force :: "bool option"

record 'w facility =
  fac_run_command :: "string \<Rightarrow> string option \<Rightarrow> 'w \<Rightarrow> (int \<times> string \<times> string) \<times> 'w"
  fac_datasets_create :: "zoau_args \<Rightarrow> 'w \<Rightarrow> (int \<times> string \<times> string) \<times> 'w"
  fac_datasets_delete :: "string \<Rightarrow> 'w \<Rightarrow> int \<times> 'w"
  fac_datasets_hlq :: "'w \<Rightarrow> string \<times> 'w"
  fac_datasets_tmp_name :: "string \<Rightarrow> 'w \<Rightarrow> string \<times> 'w"
  fac_vtoc_get_volume_entry :: "string \<Rightarrow> 'w \<Rightarrow> vtoc_entry list \<times> 'w"
  fac_vtoc_find_data_set_in_volume_output :: "string \<Rightarrow> vtoc_entry list \<Rightarrow> vtoc_entry option"
  fac_vtoc_get_data_set_entry :: "string \<Rightarrow> string \<Rightarrow> 'w \<Rightarrow> vtoc_entry option \<times> 'w"
  fac_re_search :: "string \<Rightarrow> bool \<Rightarrow> string \<Rightarrow> bool"
  fac_temp_file :: "'w \<Rightarrow> string \<times> 'w"
  fac_file_write :: "string \<Rightarrow> string \<Rightarrow> 'w \<Rightarrow> 'w"
  fac_set_position :: "string \<Rightarrow> nat"

text \<open>
  The calls made to the system are recorded, in order, beside the system state.
  \<open>fac_re_search pattern multiline subject\<close> is \<^verbatim>\<open>re.search\<close>, with \<^verbatim>\<open>re.MULTILINE\<close> when
  \<open>multiline\<close>; it is pure and is not recorded.
\<close>

datatype event =
    RunCommand string "string option"
  | DatasetsCreate zoau_args
  | DatasetsDelete string
  | DatasetsHlq
  | DatasetsTmpName string
  | VtocGetVolumeEntry string
  | VtocGetDataSetEntry string string
  | TempFile
  | FileWrite string string

record 'w pstate =
  world :: 'w
  trace :: "event list"

definition run_command ::
  "'w facility \<Rightarrow> string \<Rightarrow> string option \<Rightarrow> 'w pstate \<Rightarrow> (int \<times> string \<times> string) \<times> 'w pstate" where
  "run_command F cmd data s =
     (case fac_run_command F cmd data (world s) of
        (r, w) \<Rightarrow> (r, \<lparr>world = w, trace = trace s @ [RunCommand cmd data]\<rparr>))"

definition datasets_create ::
  "'w facility \<Rightarrow> zoau_args \<Rightarrow> 'w pstate \<Rightarrow> (int \<times> string \<times> string) \<times> 'w pstate" where
  "datasets_create F args s =
     (case fac_datasets_create F args (world s) of
        (r, w) \<Rightarrow> (r, \<lparr>world = w, trace = trace s @ [DatasetsCreate args]\<rparr>))"

definition datasets_delete :: "'w facility \<Rightarrow> string \<Rightarrow> 'w pstate \<Rightarrow> int \<times> 'w pstate" where
  "datasets_delete F name s =
     (case fac_datasets_delete F name (world s) of
        (rc, w) \<Rightarrow> (rc, \<lparr>world = w, trace = trace s @ [DatasetsDelete name]\<rparr>))"

definition datasets_hlq :: "'w facility \<Rightarrow> 'w pstate \<Rightarrow> string \<times> 'w pstate" where
  "datasets_hlq F s =
     (case fac_datasets_hlq F (world s) of
        (h, w) \<Rightarrow> (h, \<lparr>world = w, trace = trace s @ [DatasetsHlq]\<rparr>))"

definition datasets_tmp_name :: "'w facility \<Rightarrow> string \<Rightarrow> 'w pstate \<Rightarrow> string \<times> 'w pstate" where
  "datasets_tmp_name F hlq s =
     (case fac_datasets_tmp_name F hlq (world s) of
        (n, w) \<Rightarrow> (n, \<lparr>world = w, trace = trace s @ [DatasetsTmpName hlq]\<rparr>))"

definition vtoc_get_volume_entry ::
  "'w facility \<Rightarrow> string \<Rightarrow> 'w pstate \<Rightarrow> vtoc_entry list \<times> 'w pstate" where
  "vtoc_get_volume_entry F volume s =
     (case fac_vtoc_get_volume_entry F volume (world s) of
        (es, w) \<Rightarrow> (es, \<lparr>world = w, trace = trace s @ [VtocGetVolumeEntry volume]\<rparr>))"

definition vtoc_get_data_set_entry ::
  "'w facility \<Rightarrow> string \<Rightarrow> string \<Rightarrow> 'w pstate \<Rightarrow> vtoc_entry option \<times> 'w pstate" where
  "vtoc_get_data_set_entry F name volume s =
     (case fac_vtoc_get_data_set_entry F name volume (world s) of
        (e, w) \<Rightarrow> (e, \<lparr>world = w, trace = trace s @ [VtocGetDataSetEntry name volume]\<rparr>))"

definition temp_file :: "'w facility \<Rightarrow> 'w pstate \<Rightarrow> string \<times> 'w pstate" where
  "temp_file F s =
     (case fac_temp_file F (world s) of
        (n, w) \<Rightarrow> (n, \<lparr>world = w, trace = trace s @ [TempFile]\<rparr>))"

definition file_write :: "'w facility \<Rightarrow> string \<Rightarrow> string \<Rightarrow> 'w pstate \<Rightarrow> 'w pstate" where
  "file_write F path contents s =
     \<lparr>world = fac_file_write F path contents (world s),
      trace = trace s @ [FileWrite path contents]\<rparr>"

definition mvscmdauth_idcams :: string where
  "mvscmdauth_idcams = ''mvscmdauth --pgm=idcams --sysprint=* --sysin=stdin''"

definition mvscmdauth_iehprogm :: string where
  "mvscmdauth_iehprogm = ''mvscmdauth --pgm=iehprogm --sysprint=* --sysin=stdin''"

text \<open>
  \<^verbatim>\<open>list(set(xs))\<close>. Python lists the elements of a set in an order that follows
  their hashes and that differs from one run of the interpreter to the next.
  \<open>fac_set_position\<close> stands for that order: each element is listed once, by
  increasing position. Whatever is proved for every \<open>F\<close> holds for every order.
\<close>

definition list_of_set :: "'w facility \<Rightarrow> string list \<Rightarrow> string list" where
  "list_of_set F xs = sort_key (fac_set_position F) (remdups xs)"

section \<open>Catalog and volume table lookups of DataSet\<close>

text \<open>
  \<^verbatim>\<open>DataSet.data_set_cataloged_volume_list(name)\<close>.
\<close>

definition data_set_cataloged_volume_list ::
  "'w facility \<Rightarrow> string \<Rightarrow> 'w pstate \<Rightarrow> string list \<times> 'w pstate" where
  "data_set_cataloged_volume_list F name s =
     (let name' = upper name;
          stdin = '' LISTCAT ENTRIES('' @ [sq] @ name' @ [sq] @ '') ALL''
      in case run_command F mvscmdauth_idcams (Some stdin) s of
           ((rc, stdout, stderr), s1) \<Rightarrow>
             (let arr = py_split ''VOLSER------------'' stdout
              in (list_of_set F (map upto_blank (tl arr)), s1)))"

text \<open>
  \<^verbatim>\<open>DataSet.data_set_cataloged(name, volumes=None)\<close>. The return code of the listing
  is bound and never read.
\<close>

definition listcat_entry_pattern :: "string \<Rightarrow> string" where
  "listcat_entry_pattern name =
     [CHR ''-'', bs, CHR ''s''] @ name @ [bs, CHR ''s'', CHR ''*'', bs, CHR ''n'', bs, CHR ''s'', CHR ''+''] @ ''IN-CAT''"

definition data_set_cataloged ::
  "'w facility \<Rightarrow> string \<Rightarrow> string list option \<Rightarrow> 'w pstate \<Rightarrow> bool \<times> 'w pstate" where
  "data_set_cataloged F name volumes s =
     (let name' = upper name;
          stdin = '' LISTCAT ENTRIES('' @ [sq] @ name' @ [sq] @ '')''
      in case run_command F mvscmdauth_idcams (Some stdin) s of
           ((rc, stdout, stderr), s1) \<Rightarrow>
             (case volumes of
                Some (v # vs) \<Rightarrow>
                  (case data_set_cataloged_volume_list F name' s1 of
                     (cataloged_volume_list, s2) \<Rightarrow>
                       if set (v # vs) \<inter> set cataloged_volume_list \<noteq> {}
                       then (True, s2) else (False, s2))
              | _ \<Rightarrow>
                  if fac_re_search F (listcat_entry_pattern name') False stdout
                  then (True, s1) else (False, s1)))"

definition is_vsam_from_vtoc ::
  "'w facility \<Rightarrow> string \<Rightarrow> string \<Rightarrow> 'w pstate \<Rightarrow> bool \<times> 'w pstate" where
  "is_vsam_from_vtoc F name volume s =
     (case vtoc_get_volume_entry F volume s of
        (data_sets, s1) \<Rightarrow>
          (let vsam_name = name @ ''.DATA'';
               data_set = (case fac_vtoc_find_data_set_in_volume_output F vsam_name data_sets of
                             None \<Rightarrow> fac_vtoc_find_data_set_in_volume_output F name data_sets
                           | Some d \<Rightarrow> Some d)
           in case data_set of
                None \<Rightarrow> (False, s1)
              | Some d \<Rightarrow>
                  ((case map_of d ''data_set_organization'' of None \<Rightarrow> [] | Some v \<Rightarrow> v) = ''VS'',
                   s1)))"

definition cluster_pattern :: "string \<Rightarrow> string" where
  "cluster_pattern name = ''^0CLUSTER[ ]+-+[ ]+'' @ name @ ''[ ]*$''"

definition is_vsam_from_listcat ::
  "'w facility \<Rightarrow> string \<Rightarrow> 'w pstate \<Rightarrow> bool \<times> 'w pstate" where
  "is_vsam_from_listcat F name s =
     (let stdin = '' LISTCAT ENTRIES('' @ [sq] @ upper name @ [sq] @ '')''
      in case run_command F mvscmdauth_idcams (Some stdin) s of
           ((rc, stdout, stderr), s1) \<Rightarrow>
             (fac_re_search F (cluster_pattern name) True stdout, s1))"

definition is_vsam ::
  "'w facility \<Rightarrow> string \<Rightarrow> string list option \<Rightarrow> 'w pstate \<Rightarrow> bool \<times> 'w pstate" where
  "is_vsam F name volumes s =
     (case volumes of
        Some (v # vs) \<Rightarrow> is_vsam_from_vtoc F name v s
      | _ \<Rightarrow> is_vsam_from_listcat F name s)"

section \<open>Primitive operators of DataSet\<close>

text \<open>The module-level arguments of \<^verbatim>\<open>ensure_present\<close>, \<^verbatim>\<open>replace\<close> and \<^verbatim>\<open>create\<close>.\<close>

record ds_args =
  arg_name :: string
  arg_type :: string
  arg_space_primary :: "int option"
  arg_space_secondary :: "int option"
  arg_space_type :: "string option"
  arg_record_format :: "string option"
  arg_record_length :: "int option"
  arg_block_size :: "int option"
  arg_directory_blocks :: "int option"
  arg_key_length :: "int option"
  arg_key_offset :: "int option"
  arg_sms_storage_class :: "string option"
  arg_sms_data_class :: "string option"
  arg_sms_management_class :: "string option"
  arg_volumes :: "string list option"
  arg_tmp_hlq :: "string option"
  arg_force :: "bool option"

text \<open>\<^verbatim>\<open>str(space) + space_type\<close>, the unit only when \<^verbatim>\<open>space_type\<close> is a non-empty string.\<close>

definition space_text :: "int option \<Rightarrow> string option \<Rightarrow> string option" where
  "space_text space unit =
     (case space of
        None \<Rightarrow> None
      | Some n \<Rightarrow> Some (str_int n @ (case unit of None \<Rightarrow> [] | Some u \<Rightarrow> u)))"

definition build_zoau_args :: "ds_args \<Rightarrow> zoau_args" where
  "build_zoau_args a =
     \<lparr>z_name = arg_name a,
      z_type = (if arg_type a = ''ZFS'' then ''LDS'' else arg_type a),
      z_primary_space = space_text (arg_space_primary a) (arg_space_type a),
      z_secondary_space = space_text (arg_space_secondary a) (arg_space_type a),
      z_record_format = arg_record_format a,
      z_storage_class_name = arg_sms_storage_class a,
      z_data_class_name = arg_sms_data_class a,
      z_management_class_name = arg_sms_management_class a,
      z_record_length = arg_record_length a,
      z_key_offset = arg_key_offset a,
      z_key_length = arg_key_length a,
      z_block_size = arg_block_size a,
      z_directory_blocks = arg_directory_blocks a,
      z_volumes = (case arg_volumes a of
                     Some (v # vs) \<Rightarrow> Some (join '','' (v # vs))
                   | _ \<Rightarrow> None),
      z_tmp_hlq = arg_tmp_hlq a,
      z_force = arg_force a\<rparr>"

definition create :: "'w facility \<Rightarrow> ds_args \<Rightarrow> 'w pstate \<Rightarrow> (error + int) \<times> 'w pstate" where
  "create F a s =
     (case datasets_create F (build_zoau_args a) s of
        ((rc, stdout_response, stderr_response), s1) \<Rightarrow>
          if rc > 0
          then (Inl (DatasetCreateError (arg_name a) rc (stdout_response @ stderr_response)), s1)
          else (Inr rc, s1))"

definition delete :: "'w facility \<Rightarrow> string \<Rightarrow> 'w pstate \<Rightarrow> (error + unit) \<times> 'w pstate" where
  "delete F name s =
     (case datasets_delete F name s of
        (rc, s1) \<Rightarrow> if rc > 0 then (Inl (DatasetDeleteError name rc), s1) else (Inr (), s1))"

text \<open>\<^verbatim>\<open>DataSet._format_jcl_line(string)\<close> with its default arguments.\<close>

definition format_jcl_line :: "string \<Rightarrow> string" where
  "format_jcl_line string = ljust 71 string @ ''X'' @ [nl]"

fun build_volume_string_iehprogm_from :: "nat \<Rightarrow> nat \<Rightarrow> string list \<Rightarrow> string" where
  "build_volume_string_iehprogm_from index n [] = []"
| "build_volume_string_iehprogm_from index n (volume # rest) =
     (let single_volume_string =
            (if index = 0 then ''               VOL=3390=('' @ upper volume
             else ''               '' @ upper volume)
      in (if index + 1 \<noteq> n then format_jcl_line (single_volume_string @ '','')
          else single_volume_string @ '')'' @ [nl])
         @ build_volume_string_iehprogm_from (index + 1) n rest)"

definition build_volume_string_iehprogm :: "string list \<Rightarrow> string" where
  "build_volume_string_iehprogm volumes =
     build_volume_string_iehprogm_from 0 (length volumes) volumes"

definition build_non_vsam_catalog_command :: "string \<Rightarrow> string list \<Rightarrow> string" where
  "build_non_vsam_catalog_command name volumes =
     format_jcl_line (''    CATLG DSNAME='' @ name @ '','') @ build_volume_string_iehprogm volumes"

definition build_volume_string_idcams :: "string list \<Rightarrow> string" where
  "build_volume_string_idcams volumes = join ('' -'' @ [nl] @ ''    '') volumes"

definition catalog_non_vsam ::
  "'w facility \<Rightarrow> string \<Rightarrow> string list \<Rightarrow> 'w pstate \<Rightarrow> (error + unit) \<times> 'w pstate" where
  "catalog_non_vsam F name volumes s =
     (let iehprogm_input = build_non_vsam_catalog_command (upper name) volumes
      in case run_command F mvscmdauth_iehprogm (Some iehprogm_input) s of
           ((rc, stdout, stderr), s1) \<Rightarrow>
             if rc \<noteq> 0 \<or> \<not> contains ''NORMAL END OF TASK RETURNED'' stdout
             then (Inl (DatasetCatalogError name volumes (str_int rc) []), s1)
             else (Inr (), s1))"

definition VSAM_CATALOG_COMMAND_NOT_INDEXED :: "string \<Rightarrow> string \<Rightarrow> string \<Rightarrow> string" where
  "VSAM_CATALOG_COMMAND_NOT_INDEXED a0 a1 a2 =
     '' DEFINE CLUSTER -'' @ [nl] @
     ''    (NAME('' @ [sq] @ a0 @ [sq] @ '') -'' @ [nl] @
     ''    VOLUMES('' @ a1 @ '') -'' @ [nl] @
     ''    RECATALOG '' @ a2 @ '') -'' @ [nl] @
     ''    DATA(NAME('' @ [sq] @ a0 @ ''.DATA'' @ [sq] @ ''))'' @ [nl] @
     ''    ''"

definition VSAM_CATALOG_COMMAND_INDEXED :: "string \<Rightarrow> string \<Rightarrow> string \<Rightarrow> string" where
  "VSAM_CATALOG_COMMAND_INDEXED a0 a1 a2 =
     '' DEFINE CLUSTER -'' @ [nl] @
     ''    (NAME('' @ [sq] @ a0 @ [sq] @ '') -'' @ [nl] @
     ''    VOLUMES('' @ a1 @ '') -'' @ [nl] @
     ''    RECATALOG '' @ a2 @ '') -'' @ [nl] @
     ''    DATA(NAME('' @ [sq] @ a0 @ ''.DATA'' @ [sq] @ '')) -'' @ [nl] @
     ''    INDEX(NAME('' @ [sq] @ a0 @ ''.INDEX'' @ [sq] @ ''))'' @ [nl] @
     ''    ''"

text \<open>The truth value of a volume table entry: \<^verbatim>\<open>None\<close> and the empty dictionary are false.\<close>

definition truthy_entry :: "vtoc_entry option \<Rightarrow> bool" where
  "truthy_entry e = (case e of None \<Rightarrow> False | Some d \<Rightarrow> d \<noteq> [])"

text \<open>
  \<^verbatim>\<open>DataSet._catalog_vsam(name, volumes)\<close>: one DEFINE CLUSTER ... RECATALOG command,
  INDEXED or NONINDEXED as the volume table says, and on a non-zero return code one
  more, LINEAR.
\<close>

definition catalog_vsam ::
  "'w facility \<Rightarrow> string \<Rightarrow> string list \<Rightarrow> 'w pstate \<Rightarrow> (error + unit) \<times> 'w pstate" where
  "catalog_vsam F name volumes s =
     (let data_set_name = upper name
      in case volumes of
           [] \<Rightarrow> (Inl IndexError, s)
         | v0 # _ \<Rightarrow>
             (case vtoc_get_data_set_entry F (name @ ''.DATA'') v0 s of
                (ds_vtoc_data_entry, s1) \<Rightarrow>
             case vtoc_get_data_set_entry F (name @ ''.INDEX'') v0 s1 of
                (ds_vtoc_index_entry, s2) \<Rightarrow>
             (let data_set_type_vsam =
                    (if truthy_entry ds_vtoc_data_entry \<and> truthy_entry ds_vtoc_index_entry
                     then ''INDEXED'' else ''NONINDEXED'');
                  command =
                    (if data_set_type_vsam \<noteq> ''INDEXED''
                     then VSAM_CATALOG_COMMAND_NOT_INDEXED data_set_name
                            (build_volume_string_idcams volumes) data_set_type_vsam
                     else VSAM_CATALOG_COMMAND_INDEXED data_set_name
                            (build_volume_string_idcams volumes) data_set_type_vsam)
              in case run_command F mvscmdauth_idcams (Some command) s2 of
                   ((command_rc, stdout, stderr), s3) \<Rightarrow>
                     if command_rc = 0 then (Inr (), s3)
                     else
                       (let command' = VSAM_CATALOG_COMMAND_NOT_INDEXED data_set_name
                                         (build_volume_string_idcams volumes) ''LINEAR''
                        in case run_command F mvscmdauth_idcams (Some command') s3 of
                             ((command_rc', stdout', stderr'), s4) \<Rightarrow>
                               if command_rc' = 0 then (Inr (), s4)
                               else (Inl (DatasetCatalogError name volumes (str_int command_rc')
                                            ''Attempt to catalog VSAM data set failed.''), s4)))))"

definition catalog ::
  "'w facility \<Rightarrow> string \<Rightarrow> string list \<Rightarrow> 'w pstate \<Rightarrow> (error + unit) \<times> 'w pstate" where
  "catalog F name volumes s =
     (case is_vsam F name (Some volumes) s of
        (vsam, s1) \<Rightarrow>
          if vsam then catalog_vsam F name volumes s1 else catalog_non_vsam F name volumes s1)"

text \<open>\<^verbatim>\<open>DataSet.temp_name(hlq)\<close>.\<close>

definition temp_name :: "'w facility \<Rightarrow> string \<Rightarrow> 'w pstate \<Rightarrow> string \<times> 'w pstate" where
  "temp_name F hlq s =
     (if hlq = [] then
        (case datasets_hlq F s of (hlq', s1) \<Rightarrow> datasets_tmp_name F hlq' s1)
      else datasets_tmp_name F hlq s)"

text \<open>
  \<^verbatim>\<open>DataSet.create_temp(hlq)\<close> with the defaults of its other parameters, as its one
  caller uses it.
\<close>

definition create_temp_args :: "string \<Rightarrow> ds_args" where
  "create_temp_args name =
     \<lparr>arg_name = name, arg_type = ''SEQ'', arg_space_primary = Some 5,
      arg_space_secondary = Some 5, arg_space_type = Some ''M'',
      arg_record_format = Some ''FB'', arg_record_length = Some 80,
      arg_block_size = None, arg_directory_blocks = None, arg_key_length = None,
      arg_key_offset = None, arg_sms_storage_class = None, arg_sms_data_class = None,
      arg_sms_management_class = None, arg_volumes = None, arg_tmp_hlq = None,
      arg_force = None\<rparr>"

definition create_temp ::
  "'w facility \<Rightarrow> string \<Rightarrow> 'w pstate \<Rightarrow> (error + string) \<times> 'w pstate" where
  "create_temp F hlq s =
     (case temp_name F hlq s of
        (tmp, s1) \<Rightarrow>
          (case create F (create_temp_args tmp) s1 of
             (Inl e, s2) \<Rightarrow> (Inl e, s2)
           | (Inr rc, s2) \<Rightarrow> (Inr tmp, s2)))"

text \<open>\<^verbatim>\<open>DataSet.write(name, contents)\<close> (\<open>write\<close> is a keyword of the prover).\<close>

definition write_ds ::
  "'w facility \<Rightarrow> string \<Rightarrow> string \<Rightarrow> 'w pstate \<Rightarrow> (error + unit) \<times> 'w pstate" where
  "write_ds F name contents s =
     (case temp_file F s of
        (temp, s1) \<Rightarrow>
          (let s2 = file_write F temp contents s1
           in case run_command F
                     (''cp -O u '' @ temp @ '' '' @ [dq] @ ''//'' @ [sq] @ name @ [sq] @ [dq]) None s2 of
                ((rc, stdout, stderr), s3) \<Rightarrow>
                  if rc \<noteq> 0 then (Inl (DatasetWriteError name rc), s3) else (Inr (), s3)))"

text \<open>
  \<^verbatim>\<open>DataSet._uncatalog_non_vsam(name)\<close>. The body of the \<^verbatim>\<open>try\<close> gives \<open>body\<close>; the
  \<^verbatim>\<open>finally\<close> clause runs after it whatever it gave, when \<^verbatim>\<open>temp_name\<close> has been bound
  to a non-empty name.
\<close>

definition uncatalog_non_vsam ::
  "'w facility \<Rightarrow> string \<Rightarrow> 'w pstate \<Rightarrow> (error + unit) \<times> 'w pstate" where
  "uncatalog_non_vsam F name s =
     (let iehprogm_input = '' UNCATLG DSNAME='' @ name
      in case create_temp F (case py_split ''.'' name of [] \<Rightarrow> [] | q # _ \<Rightarrow> q) s of
           (Inl e, s1) \<Rightarrow> (Inl e, s1)
         | (Inr tmp, s1) \<Rightarrow>
             (let body =
                    (case write_ds F tmp iehprogm_input s1 of
                       (Inl e, s2) \<Rightarrow> (Inl e, s2)
                     | (Inr u, s2) \<Rightarrow>
                         (case run_command F
                                 (''mvscmdauth --pgm=iehprogm --sysprint=* --sysin='' @ tmp) None s2 of
                            ((rc, stdout, stderr), s3) \<Rightarrow>
                              if rc \<noteq> 0 \<or> \<not> contains ''NORMAL END OF TASK RETURNED'' stdout
                              then (Inl (DatasetUncatalogError name rc), s3)
                              else (Inr (), s3)))
              in if tmp \<noteq> []
                 then (case datasets_delete F tmp (snd body) of (rc, s4) \<Rightarrow> (fst body, s4))
                 else body))"

definition uncatalog_vsam ::
  "'w facility \<Rightarrow> string \<Rightarrow> 'w pstate \<Rightarrow> (error + unit) \<times> 'w pstate" where
  "uncatalog_vsam F name s =
     (let idcams_input = '' DELETE '' @ [sq] @ name @ [sq] @ '' NOSCRATCH''
      in case run_command F mvscmdauth_idcams (Some idcams_input) s of
           ((rc, stdout, stderr), s1) \<Rightarrow>
             if rc \<noteq> 0 then (Inl (DatasetUncatalogError name rc), s1) else (Inr (), s1))"

definition uncatalog ::
  "'w facility \<Rightarrow> string \<Rightarrow> 'w pstate \<Rightarrow> (error + unit) \<times> 'w pstate" where
  "uncatalog F name s =
     (case is_vsam F name None s of
        (vsam, s1) \<Rightarrow> if vsam then uncatalog_vsam F name s1 else uncatalog_non_vsam F name s1)"

definition format_zfs ::
  "'w facility \<Rightarrow> string \<Rightarrow> 'w pstate \<Rightarrow> (error + unit) \<times> 'w pstate" where
  "format_zfs F name s =
     (case run_command F (''zfsadm format -aggregate '' @ name) None s of
        ((rc, stdout, stderr), s1) \<Rightarrow>
          if rc \<noteq> 0 then (Inl (DatasetFormatError name rc (stdout @ '' '' @ stderr)), s1)
          else (Inr (), s1))"

text \<open>\<^verbatim>\<open>DataSet.replace(**arguments)\<close>: delete, then create.\<close>

definition replace ::
  "'w facility \<Rightarrow> ds_args \<Rightarrow> 'w pstate \<Rightarrow> (error + unit) \<times> 'w pstate" where
  "replace F a s =
     (case delete F (arg_name a) s of
        (Inl e, s1) \<Rightarrow> (Inl e, s1)
      | (Inr u, s1) \<Rightarrow>
          (case create F a s1 of
             (Inl e, s2) \<Rightarrow> (Inl e, s2)
           | (Inr rc, s2) \<Rightarrow> (Inr (), s2)))"

section \<open>The reconciliation engine\<close>

text \<open>The handlers \<^verbatim>\<open>except DatasetCatalogError\<close> and its siblings catch by class.\<close>

definition is_DatasetCatalogError :: "error \<Rightarrow> bool" where
  "is_DatasetCatalogError e = (case e of DatasetCatalogError n v r m \<Rightarrow> True | _ \<Rightarrow> False)"

definition is_DatasetUncatalogError :: "error \<Rightarrow> bool" where
  "is_DatasetUncatalogError e = (case e of DatasetUncatalogError n r \<Rightarrow> True | _ \<Rightarrow> False)"

definition is_DatasetDeleteError :: "error \<Rightarrow> bool" where
  "is_DatasetDeleteError e = (case e of DatasetDeleteError n r \<Rightarrow> True | _ \<Rightarrow> False)"

text \<open>\<^verbatim>\<open>DataSet.attempt_catalog_if_necessary(name, volumes)\<close>, giving (present, changed).\<close>

definition attempt_catalog_if_necessary ::
  "'w facility \<Rightarrow> string \<Rightarrow> string list option \<Rightarrow> 'w pstate \<Rightarrow> (error + bool \<times> bool) \<times> 'w pstate" where
  "attempt_catalog_if_necessary F name volumes s =
     (case data_set_cataloged F name None s of
        (cataloged, s1) \<Rightarrow>
          if cataloged then (Inr (True, False), s1)
          else
            (case volumes of
               None \<Rightarrow> (Inr (False, False), s1)
             | Some vols \<Rightarrow>
                 (case catalog F name vols s1 of
                    (Inl e, s2) \<Rightarrow>
                      if is_DatasetCatalogError e then (Inr (False, False), s2) else (Inl e, s2)
                  | (Inr u, s2) \<Rightarrow> (Inr (True, True), s2))))"

text \<open>
  \<^verbatim>\<open>DataSet.attempt_catalog_if_necessary_and_delete(name, volumes)\<close>, giving
  (changed, present). Each \<^verbatim>\<open>return changed, present\<close> of the source is written with
  the values the two variables hold there.
\<close>

definition attempt_catalog_if_necessary_and_delete ::
  "'w facility \<Rightarrow> string \<Rightarrow> string list option \<Rightarrow> 'w pstate \<Rightarrow> (error + bool \<times> bool) \<times> 'w pstate" where
  "attempt_catalog_if_necessary_and_delete F name volumes s =
     (case volumes of
        Some (v # vs) \<Rightarrow>
          (case data_set_cataloged F name None s of
             (present1, s1) \<Rightarrow>
          if present1 then
            (case data_set_cataloged F name volumes s1 of
               (present2, s2) \<Rightarrow>
            if present2 then
              (case delete F name s2 of
                 (Inl e, s3) \<Rightarrow> (Inl e, s3)
               | (Inr u, s3) \<Rightarrow> (Inr (True, False), s3))
            else
              (case data_set_cataloged_volume_list F name s2 of
                 (cataloged_volume_list_original, s3) \<Rightarrow>
              case uncatalog F name s3 of
                (Inl e, s4) \<Rightarrow>
                  if is_DatasetUncatalogError e then (Inr (False, present2), s4) else (Inl e, s4)
              | (Inr u, s4) \<Rightarrow>
              (case catalog F name (v # vs) s4 of
                 (Inl e, s5) \<Rightarrow>
                   if is_DatasetCatalogError e then
                     (case catalog F name cataloged_volume_list_original s5 of
                        (Inl e2, s6) \<Rightarrow>
                          if is_DatasetCatalogError e2 then (Inr (False, present2), s6)
                          else (Inl e2, s6)
                      | (Inr u2, s6) \<Rightarrow> (Inr (False, present2), s6))
                   else (Inl e, s5)
               | (Inr u2, s5) \<Rightarrow>
               (case data_set_cataloged F name volumes s5 of
                  (present3, s6) \<Rightarrow>
               if present3 then
                 (case delete F name s6 of
                    (Inl e, s7) \<Rightarrow>
                      if is_DatasetDeleteError e then
                        (case uncatalog F name s7 of
                           (Inl e2, s8) \<Rightarrow>
                             if is_DatasetUncatalogError e2 then
                               (case catalog F name cataloged_volume_list_original s8 of
                                  (Inl e3, s9) \<Rightarrow>
                                    if is_DatasetCatalogError e3 then (Inr (False, present3), s9)
                                    else (Inl e3, s9)
                                | (Inr u3, s9) \<Rightarrow> (Inr (False, present3), s9))
                             else (Inl e2, s8)
                         | (Inr u3, s8) \<Rightarrow> (Inr (False, present3), s8))
                      else (Inl e, s7)
                  | (Inr u3, s7) \<Rightarrow>
                      (case catalog F name cataloged_volume_list_original s7 of
                         (Inl e, s8) \<Rightarrow>
                           if is_DatasetCatalogError e then (Inr (True, False), s8)
                           else (Inl e, s8)
                       | (Inr u4, s8) \<Rightarrow> (Inr (True, False), s8)))
               else (Inr (False, present3), s6)))))
          else
            (case catalog F name (v # vs) s1 of
               (Inl e, s2) \<Rightarrow>
                 if is_DatasetCatalogError e then (Inr (False, present1), s2) else (Inl e, s2)
             | (Inr u, s2) \<Rightarrow>
                 (case data_set_cataloged F name volumes s2 of
                    (present2, s3) \<Rightarrow>
                      if present2 then
                        (case delete F name s3 of
                           (Inl e, s4) \<Rightarrow> (Inl e, s4)
                         | (Inr u2, s4) \<Rightarrow> (Inr (True, False), s4))
                      else (Inr (False, present2), s3))))
      | _ \<Rightarrow>
          (case data_set_cataloged F name None s of
             (present, s1) \<Rightarrow>
               if present then
                 (case delete F name s1 of
                    (Inl e, s2) \<Rightarrow>
                      if is_DatasetDeleteError e then (Inr (False, present), s2) else (Inl e, s2)
                  | (Inr u, s2) \<Rightarrow> (Inr (True, False), s2))
               else (Inr (False, present), s1)))"

text \<open>\<^verbatim>\<open>DataSet.ensure_absent(name, volumes=None)\<close>.\<close>

definition ensure_absent ::
  "'w facility \<Rightarrow> string \<Rightarrow> string list option \<Rightarrow> 'w pstate \<Rightarrow> (error + bool) \<times> 'w pstate" where
  "ensure_absent F name volumes s =
     (case attempt_catalog_if_necessary_and_delete F name volumes s of
        (Inl e, s1) \<Rightarrow> (Inl e, s1)
      | (Inr (changed, present), s1) \<Rightarrow> (Inr changed, s1))"

text \<open>\<^verbatim>\<open>DataSet.ensure_cataloged(name, volumes)\<close>.\<close>

definition ensure_cataloged ::
  "'w facility \<Rightarrow> string \<Rightarrow> string list \<Rightarrow> 'w pstate \<Rightarrow> (error + bool) \<times> 'w pstate" where
  "ensure_cataloged F name volumes s =
     (case data_set_cataloged F name None s of
        (cataloged, s1) \<Rightarrow>
          if cataloged then (Inr False, s1)
          else
            (case catalog F name volumes s1 of
               (Inl e, s2) \<Rightarrow>
                 if is_DatasetCatalogError e
                 then (Inl (DatasetCatalogError name volumes ''-1''
                              ''Data set was not found. Unable to catalog.''), s2)
                 else (Inl e, s2)
             | (Inr u, s2) \<Rightarrow> (Inr True, s2)))"

text \<open>The \<^verbatim>\<open>msg\<close> attribute that \<^verbatim>\<open>DatasetCreateError.__init__\<close> formats.\<close>

definition error_msg :: "error \<Rightarrow> string" where
  "error_msg e =
     (case e of
        DatasetCreateError data_set rc msg \<Rightarrow>
          ''An error occurred during creation of data set '' @ [dq] @ data_set @ [dq] @
          ''. RC='' @ str_int rc @ '', '' @ msg
      | _ \<Rightarrow> [])"

text \<open>
  \<^verbatim>\<open>DataSet.ensure_present(name, replace, type, ...)\<close>; \<open>a\<close> holds every argument but
  \<^verbatim>\<open>replace\<close>, as \<^verbatim>\<open>arguments\<close> does after the \<^verbatim>\<open>pop\<close>. \<open>ensure_present_finish\<close> is the
  part from \<^verbatim>\<open>if present:\<close> on, with the values of \<^verbatim>\<open>present\<close> and \<^verbatim>\<open>changed\<close> reached.
\<close>

definition ensure_present_finish ::
  "'w facility \<Rightarrow> ds_args \<Rightarrow> bool \<Rightarrow> bool \<Rightarrow> bool \<Rightarrow> 'w pstate \<Rightarrow> (error + bool) \<times> 'w pstate" where
  "ensure_present_finish F a replace_flag present changed s =
     (if present \<and> \<not> replace_flag then (Inr changed, s)
      else
        (case (if present then replace F a s else (Inr (), s)) of
           (Inl e, s1) \<Rightarrow> (Inl e, s1)
         | (Inr u, s1) \<Rightarrow>
             if upper (arg_type a) = ''ZFS'' then
               (case format_zfs F (arg_name a) s1 of
                  (Inl e, s2) \<Rightarrow> (Inl e, s2)
                | (Inr u2, s2) \<Rightarrow> (Inr True, s2))
             else (Inr True, s1)))"

definition ensure_present ::
  "'w facility \<Rightarrow> ds_args \<Rightarrow> bool \<Rightarrow> 'w pstate \<Rightarrow> (error + bool) \<times> 'w pstate" where
  "ensure_present F a replace_flag s =
     (case data_set_cataloged F (arg_name a) None s of
        (cataloged, s1) \<Rightarrow>
          if cataloged then ensure_present_finish F a replace_flag True False s1
          else
            (case create F a s1 of
               (Inr rc, s2) \<Rightarrow> ensure_present_finish F a replace_flag False False s2
             | (Inl e, s2) \<Rightarrow>
                 if contains ''Error Code: 0x4704'' (error_msg e) then
                   (case attempt_catalog_if_necessary F (arg_name a) (arg_volumes a) s2 of
                      (Inl e2, s3) \<Rightarrow> (Inl e2, s3)
                    | (Inr (present, changed), s3) \<Rightarrow>
                        if present \<and> changed
                        then ensure_present_finish F a replace_flag present changed s3
                        else (Inl e, s3))
                 else (Inl e, s2)))"

section \<open>The calls of the divergence protocol\<close>










section \<open>A simulated system\<close>

text \<open>
  A small system for running the engine on concrete inputs. It holds one data
  set, \<open>USER.DATA\<close>, that lies on the volumes \<open>VOLA\<close> and \<open>VOLB\<close>; \<open>sim_cat\<close> is
  the list of volumes it is cataloged on (empty when it is not cataloged). The
  other fields fix what the facilities answer: \<open>sim_create\<close> is the response of
  \<^verbatim>\<open>datasets._create\<close> for \<open>USER.DATA\<close>, \<open>sim_delete_rc\<close> the return code of
  \<^verbatim>\<open>datasets.delete\<close> for it, \<open>sim_define_rc\<close> that of an IDCAMS DEFINE CLUSTER,
  \<open>sim_uncatlg_rc\<close> that of the IEHPROGM UNCATLG step, \<open>sim_catlg_fail\<close> a volume on
  which IEHPROGM CATLG fails, and \<open>sim_vsam\<close> says whether the volume tables
  show a VSAM cluster.
\<close>

record sim =
  sim_cat :: "string list"
  sim_vsam :: bool
  sim_create :: "int \<times> string \<times> string"
  sim_delete_rc :: int
  sim_define_rc :: int
  sim_uncatlg_rc :: int
  sim_catlg_fail :: string

definition sim_listcat_found :: string where
  "sim_listcat_found =
     ''NONVSAM ------- USER.DATA'' @ [nl] @ ''     IN-CAT --- CATALOG.MASTER'' @ [nl]"

definition sim_listcat_all :: "string list \<Rightarrow> string" where
  "sim_listcat_all vols =
     sim_listcat_found @
     concat (map (\<lambda>v. ''       VOLSER------------'' @ v @ ''     DEVTYPE------X'' @ [nl]) vols)"

definition sim_listcat_missing :: string where
  "sim_listcat_missing = ''IDC3012I ENTRY USER.DATA NOT FOUND'' @ [nl]"

definition sim_normal_end :: string where
  "sim_normal_end = ''NORMAL END OF TASK RETURNED'' @ [nl]"

definition sim_run_command ::
  "string \<Rightarrow> string option \<Rightarrow> sim \<Rightarrow> (int \<times> string \<times> string) \<times> sim" where
  "sim_run_command cmd data w =
     (if cmd = mvscmdauth_idcams then
        (case data of
           None \<Rightarrow> ((12, [], []), w)
         | Some d \<Rightarrow>
             if prefix '' LISTCAT'' d then
               (if sim_cat w = [] then ((4, sim_listcat_missing, []), w)
                else if suffix ''ALL'' d then ((0, sim_listcat_all (sim_cat w), []), w)
                else ((0, sim_listcat_found, []), w))
             else if prefix '' DEFINE'' d then
               ((sim_define_rc w, [], []),
                if sim_define_rc w = 0
                then w\<lparr>sim_cat := filter (\<lambda>v. contains v d) [''VOLA'', ''VOLB'']\<rparr> else w)
             else ((0, [], []), w\<lparr>sim_cat := []\<rparr>))
      else if cmd = mvscmdauth_iehprogm then
        (case data of
           None \<Rightarrow> ((12, [], []), w)
         | Some d \<Rightarrow>
             if sim_catlg_fail w \<noteq> [] \<and> contains (sim_catlg_fail w) d
             then ((8, ''UNUSUAL END'' @ [nl], []), w)
             else ((0, sim_normal_end, []),
                   w\<lparr>sim_cat := filter (\<lambda>v. contains v d) [''VOLA'', ''VOLB'']\<rparr>))
      else if prefix ''mvscmdauth --pgm=iehprogm --sysprint=* --sysin='' cmd then
        (if sim_uncatlg_rc w = 0 then ((0, sim_normal_end, []), w\<lparr>sim_cat := []\<rparr>)
         else ((sim_uncatlg_rc w, ''UNUSUAL END'' @ [nl], []), w))
      else ((0, [], []), w))"

definition sim_volume_entries :: "sim \<Rightarrow> vtoc_entry list" where
  "sim_volume_entries w =
     (if sim_vsam w
      then [[(''data_set_name'', ''USER.DATA.DATA''), (''data_set_organization'', ''VS'')],
            [(''data_set_name'', ''USER.DATA.INDEX''), (''data_set_organization'', ''VS'')]]
      else [[(''data_set_name'', ''USER.DATA''), (''data_set_organization'', ''PS'')]])"

definition sim_find :: "string \<Rightarrow> vtoc_entry list \<Rightarrow> vtoc_entry option" where
  "sim_find name entries = find (\<lambda>e. map_of e ''data_set_name'' = Some name) entries"

definition sim_re_search :: "string \<Rightarrow> bool \<Rightarrow> string \<Rightarrow> bool" where
  "sim_re_search pattern multiline subject =
     (\<not> multiline \<and> pattern = listcat_entry_pattern ''USER.DATA'' \<and>
      subject = sim_listcat_found)"

definition SIM :: "sim facility" where
  "SIM =
     \<lparr>fac_run_command = sim_run_command,
      fac_datasets_create =
        (\<lambda>args w. (if z_name args = ''USER.DATA'' then sim_create w else (0, [], []), w)),
      fac_datasets_delete =
        (\<lambda>name w. if name = ''USER.DATA''
                   then (sim_delete_rc w, if sim_delete_rc w = 0 then w\<lparr>sim_cat := []\<rparr> else w)
                   else (0, w)),
      fac_datasets_hlq = (\<lambda>w. (''USER'', w)),
      fac_datasets_tmp_name = (\<lambda>hlq w. (hlq @ ''.P0000001.T0000001.C0000000'', w)),
      fac_vtoc_get_volume_entry = (\<lambda>volume w. (sim_volume_entries w, w)),
      fac_vtoc_find_data_set_in_volume_output = sim_find,
      fac_vtoc_get_data_set_entry = (\<lambda>name volume w. (sim_find name (sim_volume_entries w), w)),
      fac_re_search = sim_re_search,
      fac_temp_file = (\<lambda>w. (''/tmp/tmpab12cd34'', w)),
      fac_file_write = (\<lambda>path contents w. w),
      fac_set_position = (\<lambda>v. 0)\<rparr>"

definition sim0 :: "string list \<Rightarrow> sim" where
  "sim0 cat =
     \<lparr>sim_cat = cat, sim_vsam = False, sim_create = (0, [], []), sim_delete_rc = 0,
      sim_define_rc = 0, sim_uncatlg_rc = 0, sim_catlg_fail = []\<rparr>"

definition start :: "'w \<Rightarrow> 'w pstate" where
  "start w = \<lparr>world = w, trace = []\<rparr>"

text \<open>
  The same system with a catalog facility that is out of order: every command
  ends with return code 12 and a message that reports no missing entry.
\<close>

definition sim_failure_text :: string where
  "sim_failure_text =
     ''IDC3009I ** VSAM CATALOG RETURN CODE IS 50 - REASON CODE IS IGG0CLEG-10'' @ [nl]"

definition SIM_out_of_order :: "sim facility" where
  "SIM_out_of_order =
     SIM\<lparr>fac_run_command := (\<lambda>cmd data w. ((12, sim_failure_text, []), w))\<rparr>"

text \<open>The commands among the recorded calls.\<close>

definition is_RunCommand :: "event \<Rightarrow> bool" where
  "is_RunCommand e = (case e of RunCommand cmd data \<Rightarrow> True | _ \<Rightarrow> False)"

text \<open>
  The arguments of a request for \<open>USER.DATA\<close> on \<open>VOLB\<close>, and the response of the
  allocation facility when the data set is already on the volume.
\<close>

definition sim_args :: ds_args where
  "sim_args =
     \<lparr>arg_name = ''USER.DATA'', arg_type = ''SEQ'', arg_space_primary = Some 5,
      arg_space_secondary = Some 3, arg_space_type = Some ''M'',
      arg_record_format = Some ''FB'', arg_record_length = Some 80,
      arg_block_size = None, arg_directory_blocks = None, arg_key_length = None,
      arg_key_offset = None, arg_sms_storage_class = None, arg_sms_data_class = None,
      arg_sms_management_class = None, arg_volumes = Some [''VOLB''], arg_tmp_hlq = None,
      arg_force = None\<rparr>"

definition sim_exists_on_volume :: "int \<times> string \<times> string" where
  "sim_exists_on_volume =
     (8, ''BGYSC1201E Dynalloc failed. Error Code: 0x4704 Information Code: 0x0'' @ [nl], [])"

section \<open>Regular expressions of the name validator\<close>

text \<open>
  The patterns of \<^verbatim>\<open>data_set_name\<close> use character classes, concatenation and
  counted repetition \<^verbatim>\<open>{m,n}\<close> only. \<open>after r s\<close> lists what is left of \<open>s\<close> after
  each way in which \<open>r\<close> matches at its start, and \<^verbatim>\<open>re.fullmatch\<close> succeeds when
  nothing is left in one of them. Under \<^verbatim>\<open>fullmatch\<close> the anchors \<^verbatim>\<open>^\<close> and \<^verbatim>\<open>$\<close> at the
  two ends of a pattern add nothing, and groups \<^verbatim>\<open>(?:...)\<close> only bracket. Names are
  strings of 8-bit characters here; among these only the ASCII letters have
  another case in the classes of the patterns.
\<close>

datatype rexp =
    Cls "char list"
  | Seq rexp rexp
  | Rep rexp nat nat

primrec rep_after :: "(string \<Rightarrow> string list) \<Rightarrow> nat \<Rightarrow> nat \<Rightarrow> string \<Rightarrow> string list" where
  "rep_after f lo 0 s = (if lo = 0 then [s] else [])"
| "rep_after f lo (Suc hi) s =
     (if lo = 0 then [s] else []) @ concat (map (rep_after f (lo - 1) hi) (f s))"

primrec after :: "rexp \<Rightarrow> string \<Rightarrow> string list" where
  "after (Cls cs) s = (case s of [] \<Rightarrow> [] | c # t \<Rightarrow> if c \<in> set cs then [t] else [])"
| "after (Seq a b) s = concat (map (after b) (after a s))"
| "after (Rep r lo hi) s = rep_after (after r) lo hi s"

definition fullmatch :: "rexp \<Rightarrow> string \<Rightarrow> bool" where
  "fullmatch r s = ([] \<in> set (after r s))"

text \<open>A character class under \<^verbatim>\<open>re.IGNORECASE\<close>: a character matches when it or its other case is listed.\<close>

definition ignorecase :: "char list \<Rightarrow> char list" where
  "ignorecase cs = cs @ map lower_char cs @ map upper_char cs"

text \<open>\<^verbatim>\<open>[A-Z$#@]\<close>, \<^verbatim>\<open>[A-Z0-9$#@-]\<close> and \<^verbatim>\<open>[A-Z0-9$#@]\<close>.\<close>

definition cls_first :: rexp where
  "cls_first = Cls (ignorecase (upper_chars @ ''$#@''))"

definition cls_rest :: rexp where
  "cls_rest = Cls (ignorecase (upper_chars @ digit_chars @ ''$#@-''))"

definition cls_member_rest :: rexp where
  "cls_member_rest = Cls (ignorecase (upper_chars @ digit_chars @ ''$#@''))"

text \<open>\<^verbatim>\<open>[A-Z$#@]{1}[A-Z0-9$#@-]{0,7}\<close>\<close>

definition rx_qualifier :: rexp where
  "rx_qualifier = Seq (Rep cls_first 1 1) (Rep cls_rest 0 7)"

text \<open>\<^verbatim>\<open>^(?:(?:[A-Z$#@]{1}[A-Z0-9$#@-]{0,7})(?:[.]{1})){1,21}[A-Z$#@]{1}[A-Z0-9$#@-]{0,7}$\<close>\<close>

definition rx_data_set :: rexp where
  "rx_data_set = Seq (Rep (Seq rx_qualifier (Rep (Cls ''.'') 1 1)) 1 21) rx_qualifier"

text \<open>The same, followed by \<^verbatim>\<open>(?:\([A-Z$#@]{1}[A-Z0-9$#@]{0,7}\)){0,1}\<close>.\<close>

definition rx_member_suffix :: rexp where
  "rx_member_suffix =
     Seq (Seq (Seq (Cls ''('') (Rep cls_first 1 1)) (Rep cls_member_rest 0 7)) (Cls '')'')"

definition rx_data_set_member :: rexp where
  "rx_data_set_member = Seq rx_data_set (Rep rx_member_suffix 0 1)"

text \<open>
  \<^verbatim>\<open>data_set_name(contents, dependencies)\<close>. \<open>check_data_set_name\<close> is the part from
  \<^verbatim>\<open>dsname = str(contents)\<close> on.
\<close>

definition check_data_set_name :: "string \<Rightarrow> dependencies \<Rightarrow> error + string option" where
  "check_data_set_name dsname deps =
     (if \<not> fullmatch rx_data_set dsname then
        (if \<not> (fullmatch rx_data_set_member dsname \<and> dep_type deps = Some ''MEMBER'')
         then Inl (ValueError (''Value '' @ dsname @ '' is invalid for data set argument.''))
         else Inr (Some (upper dsname)))
      else Inr (Some (upper dsname)))"

definition data_set_name ::
  "'w facility \<Rightarrow> string option \<Rightarrow> dependencies \<Rightarrow> 'w pstate \<Rightarrow> (error + string option) \<times> 'w pstate" where
  "data_set_name F contents deps s =
     (if dep_batch deps then (Inr None, s)
      else
        (case contents of
           None \<Rightarrow>
             if dep_state deps \<noteq> Some ''present'' then
               (Inl (ValueError (''Data set name must be provided when '' @ [dq] @
                       ''state!=present'' @ [dq])), s)
             else if dep_type deps \<noteq> Some ''MEMBER'' then
               (let tmphlq = (case dep_tmp_hlq deps of None \<Rightarrow> [] | Some h \<Rightarrow> h)
                in case temp_name F tmphlq s of
                     (generated, s1) \<Rightarrow> (check_data_set_name generated deps, s1))
             else
               (Inl (ValueError (''Data set and member name must be provided when '' @ [dq] @
                       ''type=MEMBER'' @ [dq])), s)
         | Some dsname \<Rightarrow> (check_data_set_name dsname deps, s)))"

section \<open>The name format in words\<close>

text \<open>
  The format of a data set name as the specification words it, to be compared
  with the patterns: qualifiers separated by dots, each of one to eight
  characters that are letters, digits, national characters or hyphens, the
  first a letter or a national character; and a member name in parentheses.
\<close>

fun qualifiers :: "string \<Rightarrow> string list" where
  "qualifiers [] = [[]]"
| "qualifiers (c # cs) =
     (if c = CHR ''.'' then [] # qualifiers cs
      else (case qualifiers cs of [] \<Rightarrow> [[c]] | q # qs \<Rightarrow> (c # q) # qs))"

definition letter :: "char \<Rightarrow> bool" where
  "letter c = (c \<in> set upper_chars \<or> c \<in> set lower_chars)"

definition national :: "char \<Rightarrow> bool" where
  "national c = (c \<in> set ''$#@'')"

definition digit :: "char \<Rightarrow> bool" where
  "digit c = (c \<in> set digit_chars)"

definition valid_qualifier :: "string \<Rightarrow> bool" where
  "valid_qualifier q =
     (case q of
        [] \<Rightarrow> False
      | c # cs \<Rightarrow>
          length cs \<le> 7 \<and> (letter c \<or> national c) \<and>
          list_all (\<lambda>x. letter x \<or> digit x \<or> national x \<or> x = CHR ''-'') cs)"

definition valid_member :: "string \<Rightarrow> bool" where
  "valid_member m =
     (case m of
        [] \<Rightarrow> False
      | c # cs \<Rightarrow>
          length cs \<le> 7 \<and> (letter c \<or> national c) \<and>
          list_all (\<lambda>x. letter x \<or> digit x \<or> national x) cs)"

definition dotted_name :: "nat \<Rightarrow> nat \<Rightarrow> string \<Rightarrow> bool" where
  "dotted_name lo hi s =
     (lo \<le> length (qualifiers s) \<and> length (qualifiers s) \<le> hi \<and>
      list_all valid_qualifier (qualifiers s))"

definition name_with_member :: "nat \<Rightarrow> nat \<Rightarrow> string \<Rightarrow> bool" where
  "name_with_member lo hi s =
     (let base = takeWhile (\<lambda>c. c \<noteq> CHR ''('') s;
          suffix = dropWhile (\<lambda>c. c \<noteq> CHR ''('') s
      in dotted_name lo hi base \<and>
         (case suffix of
            [] \<Rightarrow> False
          | p # m \<Rightarrow> m \<noteq> [] \<and> last m = CHR '')'' \<and> valid_member (butlast m)))"

definition no_deps :: dependencies where
  "no_deps = \<lparr>dep_batch = False, dep_state = Some ''present'', dep_type = Some ''SEQ'',
     dep_tmp_hlq = None, dep_record_format = None\<rparr>"

text \<open>The set of strings that a pattern matches in full.\<close>

primrec lang :: "rexp \<Rightarrow> string set" where
  "lang (Cls cs) = {[c] | c. c \<in> set cs}"
| "lang (Seq a b) = {u @ v | u v. u \<in> lang a \<and> v \<in> lang b}"
| "lang (Rep r lo hi) = {concat ws | ws. lo \<le> length ws \<and> length ws \<le> hi \<and> set ws \<subseteq> lang r}"

text \<open>Qualifiers, each followed by a dot.\<close>

definition dotted :: "string list \<Rightarrow> string" where
  "dotted qs = concat (map (\<lambda>q. q @ ''.'') qs)"

section \<open>Record length defaults\<close>

text \<open>
  C9: when the state is not absent and no record length is given, the record
  formats FB, VB and U yield the record lengths 80, 137 and 0.
\<close>

theorem record_length_defaults:
  "dep_state deps \<noteq> Some ''absent'' \<Longrightarrow>
     (dep_record_format deps = Some ''FB'' \<longrightarrow> record_length None deps = Inr (Some 80)) \<and>
     (dep_record_format deps = Some ''VB'' \<longrightarrow> record_length None deps = Inr (Some 137)) \<and>
     (dep_record_format deps = Some ''U'' \<longrightarrow> record_length None deps = Inr (Some 0))"
  by (simp add: record_length_def default_record_length_def DEFAULT_RECORD_LENGTHS_def
      str_int_def digit_chars_def)

theorem record_length_defaults_witness:
  "record_length None (no_deps\<lparr>dep_record_format := Some ''FB''\<rparr>) = Inr (Some 80) \<and>
   record_length None (no_deps\<lparr>dep_record_format := Some ''VB''\<rparr>) = Inr (Some 137) \<and>
   record_length None (no_deps\<lparr>dep_record_format := Some ''U''\<rparr>) = Inr (Some 0)"
  using record_length_defaults [of "no_deps\<lparr>dep_record_format := Some ''FB''\<rparr>"]
    record_length_defaults [of "no_deps\<lparr>dep_record_format := Some ''VB''\<rparr>"]
    record_length_defaults [of "no_deps\<lparr>dep_record_format := Some ''U''\<rparr>"]
  by (simp add: no_deps_def)

section \<open>The calls that the primitives record\<close>

lemma write_ds_trace:
  "\<exists>evs. trace (snd (write_ds F name contents s)) = trace s @ evs"
  by (auto simp: write_ds_def Let_def temp_file_def file_write_def run_command_def
      split: prod.splits)

lemma run_command_trace:
  "trace (snd (run_command F cmd data s)) = trace s @ [RunCommand cmd data]"
  by (simp add: run_command_def split: prod.splits)

lemma datasets_delete_trace:
  "trace (snd (datasets_delete F name s)) = trace s @ [DatasetsDelete name]"
  by (simp add: datasets_delete_def split: prod.splits)

section \<open>The reported flags of the delete engine\<close>

text \<open>
  C10: on every path on which \<open>attempt_catalog_if_necessary_and_delete\<close> returns,
  a reported change comes with the data set reported not present.
\<close>

theorem changed_implies_not_present:
  "attempt_catalog_if_necessary_and_delete F name volumes s = (Inr (changed, present), s') \<Longrightarrow>
     changed \<Longrightarrow> \<not> present"
  unfolding attempt_catalog_if_necessary_and_delete_def
  by (auto split: option.splits list.splits prod.splits sum.splits if_splits)

theorem changed_implies_not_present_witness:
  "fst (attempt_catalog_if_necessary_and_delete SIM ''USER.DATA'' None (start (sim0 [''VOLA''])))
     = Inr (True, False)"
proof -
  let ?run = "attempt_catalog_if_necessary_and_delete SIM ''USER.DATA'' None (start (sim0 [''VOLA'']))"
  have returns: "case fst ?run of Inl e \<Rightarrow> False | Inr (changed, present) \<Rightarrow> changed"
    by code_simp
  then obtain present where run: "?run = (Inr (True, present), snd ?run)"
    by (cases ?run) (auto split: sum.splits)
  from changed_implies_not_present [OF run] have "\<not> present"
    by simp
  with run show ?thesis
    by (metis fst_conv)
qed

section \<open>Absence of a data set that is not cataloged\<close>

text \<open>
  C6: for a name that the catalog lookup does not find, and no volumes given
  (\<^verbatim>\<open>None\<close> or an empty list), \<open>ensure_absent\<close> returns unchanged without an
  exception, having done nothing but the lookup.
\<close>

theorem ensure_absent_not_cataloged:
  "volumes = None \<or> volumes = Some [] \<Longrightarrow>
   data_set_cataloged F name None s = (False, s1) \<Longrightarrow>
   ensure_absent F name volumes s = (Inr False, s1)"
  unfolding ensure_absent_def attempt_catalog_if_necessary_and_delete_def
  by auto

text \<open>
  In the simulated system: the first call removes the cataloged data set, the
  second call, from the state the first one left, reports no change.
\<close>

theorem ensure_absent_not_cataloged_witness:
  "fst (ensure_absent SIM ''USER.DATA'' None (start (sim0 [''VOLA'']))) = Inr True \<and>
   fst (ensure_absent SIM ''USER.DATA'' None
          (snd (ensure_absent SIM ''USER.DATA'' None (start (sim0 [''VOLA'']))))) = Inr False \<and>
   fst (ensure_absent SIM ''USER.NOPE'' None (start (sim0 []))) = Inr False"
proof -
  let ?s = "snd (ensure_absent SIM ''USER.DATA'' None (start (sim0 [''VOLA''])))"
  have first: "fst (ensure_absent SIM ''USER.DATA'' None (start (sim0 [''VOLA'']))) = Inr True"
    by code_simp
  have "fst (data_set_cataloged SIM ''USER.DATA'' None ?s) = False"
    by code_simp
  then have "data_set_cataloged SIM ''USER.DATA'' None ?s =
      (False, snd (data_set_cataloged SIM ''USER.DATA'' None ?s))"
    by (simp add: prod_eq_iff)
  from ensure_absent_not_cataloged [OF _ this, of None]
  have second: "fst (ensure_absent SIM ''USER.DATA'' None ?s) = Inr False"
    by simp
  have "fst (data_set_cataloged SIM ''USER.NOPE'' None (start (sim0 []))) = False"
    by code_simp
  then have "data_set_cataloged SIM ''USER.NOPE'' None (start (sim0 [])) =
      (False, snd (data_set_cataloged SIM ''USER.NOPE'' None (start (sim0 []))))"
    by (simp add: prod_eq_iff)
  from ensure_absent_not_cataloged [OF _ this, of None]
  have third: "fst (ensure_absent SIM ''USER.NOPE'' None (start (sim0 []))) = Inr False"
    by simp
  from first second third show ?thesis
    by simp
qed

section \<open>Calls in order\<close>






section \<open>The calls of each primitive\<close>













section \<open>The divergence protocol\<close>




section \<open>Catalog lookups and the return code\<close>

text \<open>
  C4, as the code has it: \<open>data_set_cataloged\<close> never raises. It does not read the
  return code of the listing: without volumes its answer is the search for the
  cataloged-entry pattern in the response text, with volumes it is whether the
  requested volumes meet the cataloged volume list. A non-zero return code
  therefore gives a negative answer unless the text matches.
\<close>

theorem data_set_cataloged_ignores_return_code:
  assumes "run_command F mvscmdauth_idcams
             (Some ('' LISTCAT ENTRIES('' @ [sq] @ upper name @ [sq] @ '')'')) s = ((rc, out, err), s1)"
  shows "data_set_cataloged F name None s =
           (fac_re_search F (listcat_entry_pattern (upper name)) False out, s1) \<and>
         data_set_cataloged F name (Some []) s =
           (fac_re_search F (listcat_entry_pattern (upper name)) False out, s1) \<and>
         data_set_cataloged F name (Some (v # vs)) s =
           (set (v # vs) \<inter> set (fst (data_set_cataloged_volume_list F (upper name) s1)) \<noteq> {},
            snd (data_set_cataloged_volume_list F (upper name) s1))"
  using assms
  by (simp add: data_set_cataloged_def Let_def split: prod.splits)

theorem data_set_cataloged_ignores_return_code_witness:
  "fst (data_set_cataloged SIM_out_of_order ''USER.DATA'' None (start (sim0 [''VOLA'']))) = False"
proof -
  let ?s = "start (sim0 [''VOLA''])"
  let ?cmd = "Some ('' LISTCAT ENTRIES('' @ [sq] @ upper ''USER.DATA'' @ [sq] @ '')'')"
  have "fst (run_command SIM_out_of_order mvscmdauth_idcams ?cmd ?s) = (12, sim_failure_text, [])"
    by code_simp
  then have run: "run_command SIM_out_of_order mvscmdauth_idcams ?cmd ?s =
      ((12, sim_failure_text, []), snd (run_command SIM_out_of_order mvscmdauth_idcams ?cmd ?s))"
    by (simp add: prod_eq_iff)
  have "\<not> fac_re_search SIM_out_of_order (listcat_entry_pattern (upper ''USER.DATA'')) False
      sim_failure_text"
    by code_simp
  with data_set_cataloged_ignores_return_code [OF run] show ?thesis
    by simp
qed

text \<open>
  The claim as it was stated fails: the listing ends with return code 12, its
  text names no missing entry, and the lookup answers \<open>False\<close> instead of raising.
\<close>

theorem data_set_cataloged_no_execution_error:
  "fst (run_command SIM_out_of_order mvscmdauth_idcams
          (Some ('' LISTCAT ENTRIES('' @ [sq] @ ''USER.DATA'' @ [sq] @ '')''))
          (start (sim0 [''VOLA'']))) = (12, sim_failure_text, []) \<and>
   \<not> contains ''NOT FOUND'' sim_failure_text \<and>
   \<not> contains ''NOT LISTED'' sim_failure_text \<and>
   \<not> contains ''NOT IN CATALOG'' sim_failure_text \<and>
   fst (data_set_cataloged SIM_out_of_order ''USER.DATA'' None (start (sim0 [''VOLA'']))) = False"
  by code_simp

section \<open>Ensuring that a data set is cataloged\<close>

text \<open>
  C3, as the code has it: \<open>ensure_cataloged\<close> looks the name up without the
  volumes. It returns unchanged exactly when the name is cataloged at all;
  otherwise it attempts the catalog on the given volumes, returns changed when
  that succeeds, and turns a catalog error into the catalog error with return
  code -1 and the text "Data set was not found. Unable to catalog.".
\<close>

theorem ensure_cataloged_cases:
  assumes "data_set_cataloged F name None s = (cataloged, s1)"
    and "catalog F name volumes s1 = (r, s2)"
  shows "(fst (ensure_cataloged F name volumes s) = Inr False) = cataloged \<and>
         (cataloged \<longrightarrow> ensure_cataloged F name volumes s = (Inr False, s1)) \<and>
         (\<not> cataloged \<and> r = Inr () \<longrightarrow> ensure_cataloged F name volumes s = (Inr True, s2)) \<and>
         (\<not> cataloged \<and> (\<exists>e. r = Inl e \<and> is_DatasetCatalogError e) \<longrightarrow>
            ensure_cataloged F name volumes s =
              (Inl (DatasetCatalogError name volumes ''-1''
                      ''Data set was not found. Unable to catalog.''), s2))"
  using assms
  by (auto simp: ensure_cataloged_def split: sum.splits)

theorem ensure_cataloged_cases_witness:
  "fst (ensure_cataloged SIM ''USER.DATA'' [''VOLB''] (start (sim0 [''VOLA'']))) = Inr False \<and>
   fst (ensure_cataloged SIM ''USER.DATA'' [''VOLB''] (start (sim0 []))) = Inr True \<and>
   fst (ensure_cataloged SIM ''USER.DATA'' [''VOLB'']
          (start ((sim0 [])\<lparr>sim_catlg_fail := ''VOLB''\<rparr>))) =
     Inl (DatasetCatalogError ''USER.DATA'' [''VOLB''] ''-1''
            ''Data set was not found. Unable to catalog.'')"
proof -
  have pair: "f = (fst f, snd f)" for f :: "'a \<times> 'b"
    by simp
  let ?a = "start (sim0 [''VOLA''])"
  let ?b = "start (sim0 [])"
  let ?c = "start ((sim0 [])\<lparr>sim_catlg_fail := ''VOLB''\<rparr>)"
  let ?look = "\<lambda>s. data_set_cataloged SIM ''USER.DATA'' None s"
  let ?cat = "\<lambda>s. catalog SIM ''USER.DATA'' [''VOLB''] (snd (?look s))"
  have a: "fst (?look ?a)"
    by code_simp
  have b: "\<not> fst (?look ?b)" "fst (?cat ?b) = Inr ()"
    by code_simp+
  have c: "\<not> fst (?look ?c)"
    "fst (?cat ?c) = Inl (DatasetCatalogError ''USER.DATA'' [''VOLB''] ''8'' [])"
    by code_simp+
  have err: "is_DatasetCatalogError (DatasetCatalogError ''USER.DATA'' [''VOLB''] ''8'' [])"
    by (simp add: is_DatasetCatalogError_def)
  from ensure_cataloged_cases [OF pair [of "?look ?a"] pair [of "?cat ?a"]] a
  have 1: "fst (ensure_cataloged SIM ''USER.DATA'' [''VOLB''] ?a) = Inr False"
    by simp
  from ensure_cataloged_cases [OF pair [of "?look ?b"] pair [of "?cat ?b"]] b
  have 2: "fst (ensure_cataloged SIM ''USER.DATA'' [''VOLB''] ?b) = Inr True"
    by simp
  from ensure_cataloged_cases [OF pair [of "?look ?c"] pair [of "?cat ?c"]] c err
  have 3: "fst (ensure_cataloged SIM ''USER.DATA'' [''VOLB''] ?c) =
      Inl (DatasetCatalogError ''USER.DATA'' [''VOLB''] ''-1''
             ''Data set was not found. Unable to catalog.'')"
    by simp
  from 1 2 3 show ?thesis
    by simp
qed

text \<open>
  The claim as it was stated fails: \<open>USER.DATA\<close> is cataloged on \<open>VOLA\<close> and not
  on the given volume \<open>VOLB\<close>, and \<open>ensure_cataloged\<close> still does nothing but the
  lookup and returns unchanged.
\<close>

theorem ensure_cataloged_ignores_volumes:
  "fst (data_set_cataloged SIM ''USER.DATA'' (Some [''VOLB'']) (start (sim0 [''VOLA''])))
     = False \<and>
   ensure_cataloged SIM ''USER.DATA'' [''VOLB''] (start (sim0 [''VOLA''])) =
     (Inr False, snd (data_set_cataloged SIM ''USER.DATA'' None (start (sim0 [''VOLA'']))))"
  by code_simp

section \<open>Recovery of a failed creation\<close>

text \<open>
  C5, as the code has it. The name is not cataloged and the creation fails with
  the error \<open>e\<close>. Without the text "Error Code: 0x4704" in its message \<open>e\<close> is
  raised as it is. With it, the recovery \<open>attempt_catalog_if_necessary\<close> runs; when
  it reports present and changed, \<open>e\<close> is dropped, and the call returns changed
  when \<^verbatim>\<open>replace\<close> is false, and goes on to \<open>replace\<close> (and the format of a ZFS)
  when \<^verbatim>\<open>replace\<close> is true, whose errors are raised; when the recovery returns
  anything else, \<open>e\<close> is raised.
\<close>

theorem ensure_present_recovery:
  assumes "data_set_cataloged F (arg_name a) None s = (False, s1)"
    and "create F a s1 = (Inl e, s2)"
    and "attempt_catalog_if_necessary F (arg_name a) (arg_volumes a) s2 = (Inr (present, changed), s3)"
  shows "(\<not> contains ''Error Code: 0x4704'' (error_msg e) \<longrightarrow>
            ensure_present F a replace_flag s = (Inl e, s2)) \<and>
         (contains ''Error Code: 0x4704'' (error_msg e) \<and> present \<and> changed \<and> \<not> replace_flag \<longrightarrow>
            ensure_present F a replace_flag s = (Inr True, s3)) \<and>
         (contains ''Error Code: 0x4704'' (error_msg e) \<and> present \<and> changed \<and> replace_flag \<longrightarrow>
            ensure_present F a replace_flag s =
              (case replace F a s3 of
                 (Inl e2, s4) \<Rightarrow> (Inl e2, s4)
               | (Inr u, s4) \<Rightarrow>
                   if upper (arg_type a) = ''ZFS'' then
                     (case format_zfs F (arg_name a) s4 of
                        (Inl e2, s5) \<Rightarrow> (Inl e2, s5)
                      | (Inr u2, s5) \<Rightarrow> (Inr True, s5))
                   else (Inr True, s4))) \<and>
         (contains ''Error Code: 0x4704'' (error_msg e) \<and> \<not> (present \<and> changed) \<longrightarrow>
            ensure_present F a replace_flag s = (Inl e, s3))"
  using assms
  by (simp add: ensure_present_def ensure_present_finish_def)

theorem ensure_present_recovery_witness:
  "fst (ensure_present SIM sim_args False
          (start ((sim0 [])\<lparr>sim_create := sim_exists_on_volume\<rparr>))) = Inr True \<and>
   fst (ensure_present SIM sim_args False
          (start ((sim0 [])\<lparr>sim_create := sim_exists_on_volume, sim_catlg_fail := ''VOLB''\<rparr>))) =
     Inl (DatasetCreateError ''USER.DATA'' 8 (fst (snd sim_exists_on_volume))) \<and>
   fst (ensure_present SIM sim_args True
          (start ((sim0 [])\<lparr>sim_create := sim_exists_on_volume\<rparr>))) =
     Inl (DatasetCreateError ''USER.DATA'' 8 (fst (snd sim_exists_on_volume))) \<and>
   fst (ensure_present SIM sim_args False
          (start ((sim0 [])\<lparr>sim_create := (12, ''No space on volume'', [])\<rparr>))) =
     Inl (DatasetCreateError ''USER.DATA'' 12 ''No space on volume'')"
proof -
  have pair: "f = (fst f, snd f)" for f :: "'a \<times> 'b"
    by simp
  let ?a = "start ((sim0 [])\<lparr>sim_create := sim_exists_on_volume\<rparr>)"
  let ?b = "start ((sim0 [])\<lparr>sim_create := sim_exists_on_volume, sim_catlg_fail := ''VOLB''\<rparr>)"
  let ?c = "start ((sim0 [])\<lparr>sim_create := (12, ''No space on volume'', [])\<rparr>)"
  let ?e = "DatasetCreateError ''USER.DATA'' 8 (fst (snd sim_exists_on_volume))"
  let ?e' = "DatasetCreateError ''USER.DATA'' 12 ''No space on volume''"
  let ?s1 = "\<lambda>s. snd (data_set_cataloged SIM (arg_name sim_args) None s)"
  let ?s2 = "\<lambda>s. snd (create SIM sim_args (?s1 s))"
  let ?rec = "\<lambda>s. attempt_catalog_if_necessary SIM (arg_name sim_args) (arg_volumes sim_args) (?s2 s)"
  have sig: "contains ''Error Code: 0x4704'' (error_msg ?e)"
    "\<not> contains ''Error Code: 0x4704'' (error_msg ?e')"
    by code_simp+
  have a1: "data_set_cataloged SIM (arg_name sim_args) None ?a = (False, ?s1 ?a)"
    by (subst prod_eq_iff) (simp, code_simp)
  have a2: "create SIM sim_args (?s1 ?a) = (Inl ?e, ?s2 ?a)"
    by (subst prod_eq_iff) (simp, code_simp)
  have a3: "?rec ?a = (Inr (True, True), snd (?rec ?a))"
    by (subst prod_eq_iff) (simp, code_simp)
  have a4: "fst (replace SIM sim_args (snd (?rec ?a))) = Inl ?e"
    by code_simp
  have b1: "data_set_cataloged SIM (arg_name sim_args) None ?b = (False, ?s1 ?b)"
    by (subst prod_eq_iff) (simp, code_simp)
  have b2: "create SIM sim_args (?s1 ?b) = (Inl ?e, ?s2 ?b)"
    by (subst prod_eq_iff) (simp, code_simp)
  have b3: "?rec ?b = (Inr (False, False), snd (?rec ?b))"
    by (subst prod_eq_iff) (simp, code_simp)
  have c1: "data_set_cataloged SIM (arg_name sim_args) None ?c = (False, ?s1 ?c)"
    by (subst prod_eq_iff) (simp, code_simp)
  have c2: "create SIM sim_args (?s1 ?c) = (Inl ?e', ?s2 ?c)"
    by (subst prod_eq_iff) (simp, code_simp)
  have c3: "?rec ?c = (Inr (True, True), snd (?rec ?c))"
    by (subst prod_eq_iff) (simp, code_simp)
  from ensure_present_recovery [OF a1 a2 a3, of False] sig
  have 1: "fst (ensure_present SIM sim_args False ?a) = Inr True"
    by simp
  from ensure_present_recovery [OF b1 b2 b3, of False] sig
  have 2: "fst (ensure_present SIM sim_args False ?b) = Inl ?e"
    by simp
  from ensure_present_recovery [OF a1 a2 a3, of True] sig a4
  have 3: "fst (ensure_present SIM sim_args True ?a) = Inl ?e"
    by (simp split: prod.splits sum.splits)
  from ensure_present_recovery [OF c1 c2 c3, of False] sig
  have 4: "fst (ensure_present SIM sim_args False ?c) = Inl ?e'"
    by simp
  from 1 2 3 4 show ?thesis
    by simp
qed

text \<open>
  The claim as it was stated fails when \<^verbatim>\<open>replace\<close> is true: the creation fails
  with the signature, the recovery reports present and changed, and the call
  still ends in an error, the one of the delete that \<open>replace\<close> starts with.
\<close>

theorem ensure_present_recovered_then_replace_fails:
  "fst (create SIM sim_args
          (snd (data_set_cataloged SIM ''USER.DATA'' None
             (start ((sim0 [])\<lparr>sim_create := sim_exists_on_volume, sim_delete_rc := 8\<rparr>))))) =
     Inl (DatasetCreateError ''USER.DATA'' 8 (fst (snd sim_exists_on_volume))) \<and>
   contains ''Error Code: 0x4704''
     (error_msg (DatasetCreateError ''USER.DATA'' 8 (fst (snd sim_exists_on_volume)))) \<and>
   fst (attempt_catalog_if_necessary SIM ''USER.DATA'' (Some [''VOLB''])
          (snd (create SIM sim_args
             (snd (data_set_cataloged SIM ''USER.DATA'' None
                (start ((sim0 [])\<lparr>sim_create := sim_exists_on_volume, sim_delete_rc := 8\<rparr>)))))))
     = Inr (True, True) \<and>
   fst (ensure_present SIM sim_args True
          (start ((sim0 [])\<lparr>sim_create := sim_exists_on_volume, sim_delete_rc := 8\<rparr>))) =
     Inl (DatasetDeleteError ''USER.DATA'' 8)"
  by code_simp

section \<open>Cataloging a VSAM cluster\<close>

text \<open>
  C2, as the code has it: \<open>catalog_vsam\<close> reads the two volume table entries, runs
  one recatalog command (INDEXED when both entries are there, NONINDEXED
  otherwise) and, when that returns non-zero, one LINEAR recatalog command;
  when that returns non-zero too, it raises the catalog error. These are two
  commands, after two volume table lookups, and no third command is run.
\<close>

theorem catalog_vsam_fallback:
  assumes "vtoc_get_data_set_entry F (name @ ''.DATA'') v0 s = (data_entry, s1)"
    and "vtoc_get_data_set_entry F (name @ ''.INDEX'') v0 s1 = (index_entry, s2)"
    and "first_command =
           (if truthy_entry data_entry \<and> truthy_entry index_entry
            then VSAM_CATALOG_COMMAND_INDEXED (upper name)
                   (build_volume_string_idcams (v0 # vs)) ''INDEXED''
            else VSAM_CATALOG_COMMAND_NOT_INDEXED (upper name)
                   (build_volume_string_idcams (v0 # vs)) ''NONINDEXED'')"
    and "run_command F mvscmdauth_idcams (Some first_command) s2 = ((rc1, out1, err1), s3)"
    and "rc1 \<noteq> 0"
    and "linear_command =
           VSAM_CATALOG_COMMAND_NOT_INDEXED (upper name)
             (build_volume_string_idcams (v0 # vs)) ''LINEAR''"
    and "run_command F mvscmdauth_idcams (Some linear_command) s3 = ((rc2, out2, err2), s4)"
  shows "catalog_vsam F name (v0 # vs) s =
           (if rc2 = 0 then Inr ()
            else Inl (DatasetCatalogError name (v0 # vs) (str_int rc2)
                        ''Attempt to catalog VSAM data set failed.''), s4) \<and>
         trace s4 = trace s @
           [VtocGetDataSetEntry (name @ ''.DATA'') v0, VtocGetDataSetEntry (name @ ''.INDEX'') v0,
            RunCommand mvscmdauth_idcams (Some first_command),
            RunCommand mvscmdauth_idcams (Some linear_command)] \<and>
         length (filter is_RunCommand (drop (length (trace s)) (trace s4))) = 2"
proof -
  have result: "catalog_vsam F name (v0 # vs) s =
      (if rc2 = 0 then Inr ()
       else Inl (DatasetCatalogError name (v0 # vs) (str_int rc2)
                   ''Attempt to catalog VSAM data set failed.''), s4)"
    using assms
    by (cases "truthy_entry data_entry \<and> truthy_entry index_entry")
      (auto simp: catalog_vsam_def Let_def)
  have t1: "trace s1 = trace s @ [VtocGetDataSetEntry (name @ ''.DATA'') v0]"
    using assms(1) by (auto simp: vtoc_get_data_set_entry_def split: prod.splits)
  have t2: "trace s2 = trace s1 @ [VtocGetDataSetEntry (name @ ''.INDEX'') v0]"
    using assms(2) by (auto simp: vtoc_get_data_set_entry_def split: prod.splits)
  have t3: "trace s3 = trace s2 @ [RunCommand mvscmdauth_idcams (Some first_command)]"
    using assms(4) by (auto simp: run_command_def split: prod.splits)
  have t4: "trace s4 = trace s3 @ [RunCommand mvscmdauth_idcams (Some linear_command)]"
    using assms(7) by (auto simp: run_command_def split: prod.splits)
  from t1 t2 t3 t4 have events: "trace s4 = trace s @
      [VtocGetDataSetEntry (name @ ''.DATA'') v0, VtocGetDataSetEntry (name @ ''.INDEX'') v0,
       RunCommand mvscmdauth_idcams (Some first_command),
       RunCommand mvscmdauth_idcams (Some linear_command)]"
    by simp
  then have "length (filter is_RunCommand (drop (length (trace s)) (trace s4))) = 2"
    by (simp add: is_RunCommand_def)
  with result events show ?thesis
    by simp
qed

theorem catalog_vsam_fallback_witness:
  "fst (catalog_vsam SIM ''USER.DATA'' [''VOLB'']
          (start ((sim0 [])\<lparr>sim_vsam := True, sim_define_rc := 8\<rparr>))) =
     Inl (DatasetCatalogError ''USER.DATA'' [''VOLB''] ''8''
            ''Attempt to catalog VSAM data set failed.'') \<and>
   length (filter is_RunCommand
     (trace (snd (catalog_vsam SIM ''USER.DATA'' [''VOLB'']
        (start ((sim0 [])\<lparr>sim_vsam := True, sim_define_rc := 8\<rparr>)))))) = 2"
proof -
  have pair: "f = (fst f, snd f)" for f :: "'a \<times> 'b"
    by simp
  let ?s = "start ((sim0 [])\<lparr>sim_vsam := True, sim_define_rc := 8\<rparr>)"
  let ?d = "vtoc_get_data_set_entry SIM (''USER.DATA'' @ ''.DATA'') ''VOLB'' ?s"
  let ?i = "vtoc_get_data_set_entry SIM (''USER.DATA'' @ ''.INDEX'') ''VOLB'' (snd ?d)"
  let ?c1 = "if truthy_entry (fst ?d) \<and> truthy_entry (fst ?i)
             then VSAM_CATALOG_COMMAND_INDEXED (upper ''USER.DATA'')
                    (build_volume_string_idcams [''VOLB'']) ''INDEXED''
             else VSAM_CATALOG_COMMAND_NOT_INDEXED (upper ''USER.DATA'')
                    (build_volume_string_idcams [''VOLB'']) ''NONINDEXED''"
  let ?r1 = "run_command SIM mvscmdauth_idcams (Some ?c1) (snd ?i)"
  let ?c2 = "VSAM_CATALOG_COMMAND_NOT_INDEXED (upper ''USER.DATA'')
               (build_volume_string_idcams [''VOLB'']) ''LINEAR''"
  let ?r2 = "run_command SIM mvscmdauth_idcams (Some ?c2) (snd ?r1)"
  have r1: "?r1 = ((8, [], []), snd ?r1)"
    by (subst prod_eq_iff) (simp, code_simp)
  have r2: "?r2 = ((8, [], []), snd ?r2)"
    by (subst prod_eq_iff) (simp, code_simp)
  have t0: "trace ?s = []"
    by (simp add: start_def)
  from catalog_vsam_fallback [OF pair [of ?d] pair [of ?i] refl r1 _ refl r2] t0
  show ?thesis
    by (simp add: str_int_def digit_chars_def is_RunCommand_def)
qed

text \<open>
  The claim as it was stated fails on the count: with both recatalog commands
  failing, the catalog error is raised after two commands (four calls to the
  system with the two volume table lookups), not three.
\<close>

theorem catalog_vsam_two_commands:
  "fst (catalog_vsam SIM ''USER.DATA'' [''VOLB'']
          (start ((sim0 [])\<lparr>sim_vsam := True, sim_define_rc := 8\<rparr>))) =
     Inl (DatasetCatalogError ''USER.DATA'' [''VOLB''] ''8''
            ''Attempt to catalog VSAM data set failed.'') \<and>
   length (filter is_RunCommand
     (trace (snd (catalog_vsam SIM ''USER.DATA'' [''VOLB'']
        (start ((sim0 [])\<lparr>sim_vsam := True, sim_define_rc := 8\<rparr>)))))) = 2 \<and>
   length (trace (snd (catalog_vsam SIM ''USER.DATA'' [''VOLB'']
        (start ((sim0 [])\<lparr>sim_vsam := True, sim_define_rc := 8\<rparr>))))) = 4"
  by code_simp

section \<open>The scratch data set of the uncatalog helper\<close>

text \<open>
  C8: once \<open>create_temp\<close> has created the scratch data set, whatever the write
  and the uncatalog command do afterwards (success, a non-zero return code, a
  response without "NORMAL END OF TASK RETURNED", each of the last two raising
  the uncatalog error), the last thing \<open>uncatalog_non_vsam\<close> does is the delete of
  that data set, and the outcome of the steps before is what it returns.
\<close>

theorem uncatalog_non_vsam_deletes_temp:
  assumes "create_temp F (case py_split ''.'' name of [] \<Rightarrow> [] | q # _ \<Rightarrow> q) s = (Inr tmp, s1)"
    and "tmp \<noteq> []"
  shows "(\<exists>evs. trace (snd (uncatalog_non_vsam F name s)) = trace s1 @ evs @ [DatasetsDelete tmp]) \<and>
         (\<forall>s2 rc out err s3.
            write_ds F tmp ('' UNCATLG DSNAME='' @ name) s1 = (Inr (), s2) \<longrightarrow>
            run_command F (''mvscmdauth --pgm=iehprogm --sysprint=* --sysin='' @ tmp) None s2
              = ((rc, out, err), s3) \<longrightarrow>
            uncatalog_non_vsam F name s =
              (if rc \<noteq> 0 \<or> \<not> contains ''NORMAL END OF TASK RETURNED'' out
               then Inl (DatasetUncatalogError name rc) else Inr (),
               snd (datasets_delete F tmp s3)))"
proof -
  let ?input = "'' UNCATLG DSNAME='' @ name"
  let ?cmd = "''mvscmdauth --pgm=iehprogm --sysprint=* --sysin='' @ tmp"
  obtain w s2 where w: "write_ds F tmp ?input s1 = (w, s2)"
    by (cases "write_ds F tmp ?input s1")
  obtain e2 where e2: "trace s2 = trace s1 @ e2"
    using write_ds_trace [of F tmp ?input s1] w by auto
  obtain rc out err s3 where r: "run_command F ?cmd None s2 = ((rc, out, err), s3)"
    by (cases "run_command F ?cmd None s2") auto
  have t3: "trace s3 = trace s2 @ [RunCommand ?cmd None]"
    using run_command_trace [of F ?cmd None s2] r by simp
  have events: "\<exists>evs. trace (snd (uncatalog_non_vsam F name s)) = trace s1 @ evs @ [DatasetsDelete tmp]"
  proof (cases w)
    case (Inl e)
    then have "snd (uncatalog_non_vsam F name s) = snd (datasets_delete F tmp s2)"
      using assms w by (simp add: uncatalog_non_vsam_def Let_def split: prod.splits)
    then show ?thesis
      using e2 by (simp add: datasets_delete_trace)
  next
    case (Inr u)
    then have "snd (uncatalog_non_vsam F name s) = snd (datasets_delete F tmp s3)"
      using assms w r by (simp add: uncatalog_non_vsam_def Let_def split: prod.splits)
    then show ?thesis
      using e2 t3 by (simp add: datasets_delete_trace)
  qed
  have outcome: "uncatalog_non_vsam F name s =
      (if rc' \<noteq> 0 \<or> \<not> contains ''NORMAL END OF TASK RETURNED'' out'
       then Inl (DatasetUncatalogError name rc') else Inr (),
       snd (datasets_delete F tmp s3'))"
    if "write_ds F tmp ?input s1 = (Inr (), s2')"
      and "run_command F ?cmd None s2' = ((rc', out', err'), s3')"
    for s2' rc' out' err' s3'
    using assms that by (simp add: uncatalog_non_vsam_def Let_def split: prod.splits)
  from events outcome show ?thesis
    by blast
qed

theorem uncatalog_non_vsam_deletes_temp_witness:
  "fst (uncatalog_non_vsam SIM ''USER.DATA'' (start ((sim0 [''VOLA''])\<lparr>sim_uncatlg_rc := 8\<rparr>)))
     = Inl (DatasetUncatalogError ''USER.DATA'' 8) \<and>
   last (trace (snd (uncatalog_non_vsam SIM ''USER.DATA''
     (start ((sim0 [''VOLA''])\<lparr>sim_uncatlg_rc := 8\<rparr>))))) =
     DatasetsDelete ''USER.P0000001.T0000001.C0000000''"
proof -
  let ?s = "start ((sim0 [''VOLA''])\<lparr>sim_uncatlg_rc := 8\<rparr>)"
  let ?tmp = "''USER.P0000001.T0000001.C0000000''"
  let ?ct = "create_temp SIM (case py_split ''.'' ''USER.DATA'' of [] \<Rightarrow> [] | q # _ \<Rightarrow> q) ?s"
  have ct: "?ct = (Inr ?tmp, snd ?ct)"
    by (subst prod_eq_iff) (simp, code_simp)
  have ne: "?tmp \<noteq> []"
    by simp
  from uncatalog_non_vsam_deletes_temp [OF ct ne]
  obtain evs where "trace (snd (uncatalog_non_vsam SIM ''USER.DATA'' ?s)) =
      trace (snd ?ct) @ evs @ [DatasetsDelete ?tmp]"
    by blast
  then have "last (trace (snd (uncatalog_non_vsam SIM ''USER.DATA'' ?s))) = DatasetsDelete ?tmp"
    by simp
  moreover have "fst (uncatalog_non_vsam SIM ''USER.DATA'' ?s) =
      Inl (DatasetUncatalogError ''USER.DATA'' 8)"
    by code_simp
  ultimately show ?thesis
    by simp
qed

section \<open>The matcher and the strings it accepts\<close>

lemma rep_after_iff:
  assumes f: "\<And>s t. t \<in> set (f s) \<longleftrightarrow> (\<exists>u\<in>L. s = u @ t)"
  shows "t \<in> set (rep_after f lo hi s) \<longleftrightarrow>
         (\<exists>ws. lo \<le> length ws \<and> length ws \<le> hi \<and> set ws \<subseteq> L \<and> s = concat ws @ t)"
proof (induction hi arbitrary: lo s)
  case 0
  show ?case
    by auto
next
  case (Suc hi)
  show ?case
  proof
    assume "t \<in> set (rep_after f lo (Suc hi) s)"
    then consider "lo = 0" "t = s"
      | s' where "s' \<in> set (f s)" "t \<in> set (rep_after f (lo - 1) hi s')"
      by (auto split: if_splits)
    then show "\<exists>ws. lo \<le> length ws \<and> length ws \<le> Suc hi \<and> set ws \<subseteq> L \<and> s = concat ws @ t"
    proof cases
      case 1
      then show ?thesis
        by (intro exI [of _ "[]"]) simp
    next
      case 2
      from 2(1) f obtain u where u: "u \<in> L" "s = u @ s'"
        by blast
      from 2(2) Suc.IH obtain ws where
        ws: "lo - 1 \<le> length ws" "length ws \<le> hi" "set ws \<subseteq> L" "s' = concat ws @ t"
        by blast
      show ?thesis
        using u ws by (intro exI [of _ "u # ws"]) auto
    qed
  next
    assume "\<exists>ws. lo \<le> length ws \<and> length ws \<le> Suc hi \<and> set ws \<subseteq> L \<and> s = concat ws @ t"
    then obtain ws where
      ws: "lo \<le> length ws" "length ws \<le> Suc hi" "set ws \<subseteq> L" "s = concat ws @ t"
      by blast
    show "t \<in> set (rep_after f lo (Suc hi) s)"
    proof (cases ws)
      case Nil
      with ws show ?thesis
        by simp
    next
      case (Cons u ws')
      with ws have "concat ws' @ t \<in> set (f s)"
        using f by auto
      moreover have "t \<in> set (rep_after f (lo - 1) hi (concat ws' @ t))"
        using Suc.IH [of "lo - 1" "concat ws' @ t"] ws Cons
        by (auto intro!: exI [of _ ws'])
      ultimately show ?thesis
        by auto
    qed
  qed
qed

lemma after_iff: "t \<in> set (after r s) \<longleftrightarrow> (\<exists>u\<in>lang r. s = u @ t)"
proof (induction r arbitrary: s t)
  case (Cls cs)
  show ?case
    by (cases s) auto
next
  case (Seq a b)
  show ?case
  proof
    assume "t \<in> set (after (Seq a b) s)"
    then obtain m where "m \<in> set (after a s)" "t \<in> set (after b m)"
      by auto
    with Seq.IH obtain u v where "u \<in> lang a" "s = u @ m" "v \<in> lang b" "m = v @ t"
      by blast
    then show "\<exists>u\<in>lang (Seq a b). s = u @ t"
      by (intro bexI [of _ "u @ v"]) auto
  next
    assume "\<exists>u\<in>lang (Seq a b). s = u @ t"
    then obtain u v where uv: "u \<in> lang a" "v \<in> lang b" "s = (u @ v) @ t"
      by auto
    then have "v @ t \<in> set (after a s)" "t \<in> set (after b (v @ t))"
      using Seq.IH by auto
    then show "t \<in> set (after (Seq a b) s)"
      by auto
  qed
next
  case (Rep r lo hi)
  have "t \<in> set (rep_after (after r) lo hi s) \<longleftrightarrow>
      (\<exists>ws. lo \<le> length ws \<and> length ws \<le> hi \<and> set ws \<subseteq> lang r \<and> s = concat ws @ t)"
    by (rule rep_after_iff) (rule Rep.IH)
  then show ?case
    by auto
qed

lemma fullmatch_iff: "fullmatch r s \<longleftrightarrow> s \<in> lang r"
  by (simp add: fullmatch_def after_iff)

lemma lang_Rep_Cls:
  "lang (Rep (Cls cs) lo hi) = {w. lo \<le> length w \<and> length w \<le> hi \<and> set w \<subseteq> set cs}"
proof (intro set_eqI iffI)
  fix w
  assume "w \<in> lang (Rep (Cls cs) lo hi)"
  then obtain ws where ws: "w = concat ws" "lo \<le> length ws" "length ws \<le> hi"
    "\<forall>x\<in>set ws. \<exists>c. x = [c] \<and> c \<in> set cs"
    by auto
  from ws(4) have "length (concat ws) = length ws \<and> set (concat ws) \<subseteq> set cs"
    by (induction ws) auto
  with ws show "w \<in> {w. lo \<le> length w \<and> length w \<le> hi \<and> set w \<subseteq> set cs}"
    by simp
next
  fix w
  assume "w \<in> {w. lo \<le> length w \<and> length w \<le> hi \<and> set w \<subseteq> set cs}"
  moreover have "concat (map (\<lambda>c. [c]) w) = w"
    by (induction w) auto
  ultimately show "w \<in> lang (Rep (Cls cs) lo hi)"
    by (fastforce intro!: exI [of _ "map (\<lambda>c. [c]) w"])
qed

section \<open>The patterns of the name validator, in words\<close>

lemma cls_first_chars:
  "c \<in> set (ignorecase (upper_chars @ ''$#@'')) \<longleftrightarrow> letter c \<or> national c"
  unfolding ignorecase_def letter_def national_def upper_chars_def lower_chars_def
    lower_char_def upper_char_def
  by auto

lemma cls_rest_chars:
  "c \<in> set (ignorecase (upper_chars @ digit_chars @ ''$#@-'')) \<longleftrightarrow>
     letter c \<or> digit c \<or> national c \<or> c = CHR ''-''"
  unfolding ignorecase_def letter_def national_def digit_def upper_chars_def lower_chars_def
    digit_chars_def lower_char_def upper_char_def
  by auto

lemma cls_member_rest_chars:
  "c \<in> set (ignorecase (upper_chars @ digit_chars @ ''$#@'')) \<longleftrightarrow>
     letter c \<or> digit c \<or> national c"
  unfolding ignorecase_def letter_def national_def digit_def upper_chars_def lower_chars_def
    digit_chars_def lower_char_def upper_char_def
  by auto


lemma lang_first_once:
  "lang (Rep cls_first 1 1) = {[c] | c. letter c \<or> national c}"
proof -
  have "w \<in> lang (Rep cls_first 1 1) \<longleftrightarrow> (\<exists>c. w = [c] \<and> (letter c \<or> national c))" for w
    unfolding cls_first_def lang_Rep_Cls
    by (cases w) (auto simp: cls_first_chars)
  then show ?thesis
    by blast
qed

lemma lang_first_then:
  "{u @ v | u v. u \<in> lang (Rep cls_first 1 1) \<and> v \<in> A} =
     {c # v | c v. (letter c \<or> national c) \<and> v \<in> A}"
proof (intro set_eqI iffI)
  fix w
  assume "w \<in> {u @ v | u v. u \<in> lang (Rep cls_first 1 1) \<and> v \<in> A}"
  then show "w \<in> {c # v | c v. (letter c \<or> national c) \<and> v \<in> A}"
    unfolding lang_first_once by auto
next
  fix w
  assume "w \<in> {c # v | c v. (letter c \<or> national c) \<and> v \<in> A}"
  then obtain c v where "w = [c] @ v" "[c] \<in> lang (Rep cls_first 1 1)" "v \<in> A"
    unfolding lang_first_once by auto
  then show "w \<in> {u @ v | u v. u \<in> lang (Rep cls_first 1 1) \<and> v \<in> A}"
    by blast
qed

lemma lang_qualifier: "lang rx_qualifier = {q. valid_qualifier q}"
proof -
  have rest: "lang (Rep cls_rest 0 7) =
      {w. length w \<le> 7 \<and> list_all (\<lambda>x. letter x \<or> digit x \<or> national x \<or> x = CHR ''-'') w}"
    unfolding cls_rest_def lang_Rep_Cls
    by (auto simp: cls_rest_chars list_all_iff)
  have seq: "lang rx_qualifier =
      {c # v | c v. (letter c \<or> national c) \<and> v \<in> lang (Rep cls_rest 0 7)}"
    unfolding rx_qualifier_def lang.simps(2) by (rule lang_first_then)
  have "q \<in> lang rx_qualifier \<longleftrightarrow> valid_qualifier q" for q
  proof (cases q)
    case Nil
    then show ?thesis
      unfolding seq rest valid_qualifier_def by simp
  next
    case (Cons a list)
    then show ?thesis
      unfolding seq rest valid_qualifier_def by simp blast
  qed
  then show ?thesis
    by blast
qed

lemma lang_member_name:
  "{u @ v | u v. u \<in> lang (Rep cls_first 1 1) \<and> v \<in> lang (Rep cls_member_rest 0 7)} =
     {m. valid_member m}"
proof -
  have rest: "lang (Rep cls_member_rest 0 7) =
      {w. length w \<le> 7 \<and> list_all (\<lambda>x. letter x \<or> digit x \<or> national x) w}"
    unfolding cls_member_rest_def lang_Rep_Cls
    by (auto simp: cls_member_rest_chars list_all_iff)
  have "m \<in> {c # v | c v. (letter c \<or> national c) \<and> v \<in> lang (Rep cls_member_rest 0 7)}
      \<longleftrightarrow> valid_member m" for m
  proof (cases m)
    case Nil
    then show ?thesis
      unfolding rest valid_member_def by simp
  next
    case (Cons a list)
    then show ?thesis
      unfolding rest valid_member_def by simp blast
  qed
  then show ?thesis
    unfolding lang_first_then by blast
qed

lemma lang_member_suffix:
  "lang rx_member_suffix = {''('' @ m @ '')'' | m. valid_member m}"
proof (intro set_eqI iffI)
  fix w
  assume "w \<in> lang rx_member_suffix"
  then obtain a b c d where w: "w = ((a @ b) @ c) @ d" "a \<in> lang (Cls ''('')"
    "b \<in> lang (Rep cls_first 1 1)" "c \<in> lang (Rep cls_member_rest 0 7)" "d \<in> lang (Cls '')'')"
    unfolding rx_member_suffix_def lang.simps(2) by blast
  then have "b @ c \<in> {m. valid_member m}"
    unfolding lang_member_name [symmetric] by blast
  moreover have "a = ''(''" "d = '')''"
    using w by simp_all
  ultimately show "w \<in> {''('' @ m @ '')'' | m. valid_member m}"
    using w(1) by simp
next
  fix w
  assume "w \<in> {''('' @ m @ '')'' | m. valid_member m}"
  then obtain m where m: "w = ''('' @ m @ '')''" "valid_member m"
    by blast
  then have "m \<in> {u @ v | u v. u \<in> lang (Rep cls_first 1 1) \<and> v \<in> lang (Rep cls_member_rest 0 7)}"
    unfolding lang_member_name by simp
  then obtain b c where bc: "m = b @ c" "b \<in> lang (Rep cls_first 1 1)"
    "c \<in> lang (Rep cls_member_rest 0 7)"
    by blast
  have "''('' \<in> lang (Cls ''('')" "'')'' \<in> lang (Cls '')'')"
    by simp_all
  with bc have "((''('' @ b) @ c) @ '')'' \<in> lang rx_member_suffix"
    unfolding rx_member_suffix_def lang.simps(2) by blast
  with m bc show "w \<in> lang rx_member_suffix"
    by simp
qed

section \<open>Splitting a name into its qualifiers\<close>

lemma qualifiers_not_Nil: "qualifiers s \<noteq> []"
  by (induction s) (auto split: list.splits)

lemma qualifiers_dot_free: "q \<in> set (qualifiers s) \<Longrightarrow> CHR ''.'' \<notin> set q"
  by (induction s arbitrary: q) (auto split: list.splits if_splits)

lemma qualifiers_single: "CHR ''.'' \<notin> set q \<Longrightarrow> qualifiers q = [q]"
  by (induction q) auto

lemma qualifiers_append_dot:
  "CHR ''.'' \<notin> set q \<Longrightarrow> qualifiers (q @ CHR ''.'' # rest) = q # qualifiers rest"
  by (induction q) auto

lemma qualifiers_dotted:
  "\<forall>q\<in>set qs. CHR ''.'' \<notin> set q \<Longrightarrow> CHR ''.'' \<notin> set q' \<Longrightarrow>
     qualifiers (dotted qs @ q') = qs @ [q']"
  by (induction qs) (auto simp: dotted_def qualifiers_single qualifiers_append_dot)

lemma dotted_qualifiers:
  "dotted (butlast (qualifiers s)) @ last (qualifiers s) = s"
proof (induction s)
  case Nil
  show ?case
    by (simp add: dotted_def)
next
  case (Cons c s)
  obtain q qs where q: "qualifiers s = q # qs"
    using qualifiers_not_Nil [of s] by (cases "qualifiers s") auto
  show ?case
  proof (cases "c = CHR ''.''")
    case True
    then show ?thesis
      using Cons q by (simp add: dotted_def)
  next
    case False
    then show ?thesis
      using Cons q by (cases qs) (auto simp: dotted_def)
  qed
qed

lemma qualifiers_chars: "c \<in> set s \<Longrightarrow> c = CHR ''.'' \<or> (\<exists>q\<in>set (qualifiers s). c \<in> set q)"
  by (induction s) (auto split: list.splits)

section \<open>The data set name pattern and the dotted names\<close>

lemma valid_qualifier_chars:
  assumes "valid_qualifier q"
  shows "CHR ''.'' \<notin> set q" and "CHR ''('' \<notin> set q"
proof -
  have dot: "\<not> (letter (CHR ''.'') \<or> digit (CHR ''.'') \<or> national (CHR ''.'') \<or> CHR ''.'' = CHR ''-'')"
    by (simp add: letter_def digit_def national_def upper_chars_def lower_chars_def digit_chars_def)
  have par: "\<not> (letter (CHR ''('') \<or> digit (CHR ''('') \<or> national (CHR ''('') \<or> CHR ''('' = CHR ''-'')"
    by (simp add: letter_def digit_def national_def upper_chars_def lower_chars_def digit_chars_def)
  obtain c cs where q: "q = c # cs" "letter c \<or> national c"
    "\<forall>x\<in>set cs. letter x \<or> digit x \<or> national x \<or> x = CHR ''-''"
    using assms by (auto simp: valid_qualifier_def list_all_iff split: list.splits)
  then have all: "\<forall>x\<in>set q. letter x \<or> digit x \<or> national x \<or> x = CHR ''-''"
    by auto
  show "CHR ''.'' \<notin> set q"
    using all dot by blast
  show "CHR ''('' \<notin> set q"
    using all par by blast
qed

lemma lang_dot: "lang (Rep (Cls ''.'') 1 1) = {''.''}"
proof -
  have "w \<in> lang (Rep (Cls ''.'') 1 1) \<longleftrightarrow> w = ''.''" for w
    unfolding lang_Rep_Cls by (cases w) auto
  then show ?thesis
    by blast
qed

lemma lang_qualifier_dot:
  "lang (Seq rx_qualifier (Rep (Cls ''.'') 1 1)) = (\<lambda>q. q @ ''.'') ` {q. valid_qualifier q}"
  unfolding lang.simps(2) lang_dot lang_qualifier by auto

lemma maps_into_image:
  "set ws \<subseteq> f ` A \<longleftrightarrow> (\<exists>qs. ws = map f qs \<and> (\<forall>q\<in>set qs. q \<in> A))"
proof
  assume "set ws \<subseteq> f ` A"
  then show "\<exists>qs. ws = map f qs \<and> (\<forall>q\<in>set qs. q \<in> A)"
  proof (induction ws)
    case Nil
    show ?case
      by simp
  next
    case (Cons w ws)
    then obtain qs q where "ws = map f qs" "\<forall>q\<in>set qs. q \<in> A" "w = f q" "q \<in> A"
      by auto
    then show ?case
      by (intro exI [of _ "q # qs"]) simp
  qed
next
  assume "\<exists>qs. ws = map f qs \<and> (\<forall>q\<in>set qs. q \<in> A)"
  then show "set ws \<subseteq> f ` A"
    by auto
qed

lemma lang_dotted:
  "lang (Rep (Seq rx_qualifier (Rep (Cls ''.'') 1 1)) lo hi) =
     {dotted qs | qs. lo \<le> length qs \<and> length qs \<le> hi \<and> (\<forall>q\<in>set qs. valid_qualifier q)}"
proof (intro set_eqI iffI)
  fix w
  assume "w \<in> lang (Rep (Seq rx_qualifier (Rep (Cls ''.'') 1 1)) lo hi)"
  then obtain ws where ws: "w = concat ws" "lo \<le> length ws" "length ws \<le> hi"
    "set ws \<subseteq> (\<lambda>q. q @ ''.'') ` {q. valid_qualifier q}"
    unfolding lang.simps(3) lang_qualifier_dot by blast
  from ws(4) obtain qs where qs: "ws = map (\<lambda>q. q @ ''.'') qs" "\<forall>q\<in>set qs. valid_qualifier q"
    unfolding maps_into_image by blast
  have "w = dotted qs" "lo \<le> length qs" "length qs \<le> hi"
    using ws qs by (simp_all add: dotted_def)
  with qs(2) show "w \<in> {dotted qs | qs. lo \<le> length qs \<and> length qs \<le> hi \<and>
      (\<forall>q\<in>set qs. valid_qualifier q)}"
    by blast
next
  fix w
  assume "w \<in> {dotted qs | qs. lo \<le> length qs \<and> length qs \<le> hi \<and>
      (\<forall>q\<in>set qs. valid_qualifier q)}"
  then obtain qs where qs: "w = dotted qs" "lo \<le> length qs" "length qs \<le> hi"
    "\<forall>q\<in>set qs. valid_qualifier q"
    by blast
  let ?ws = "map (\<lambda>q. q @ ''.'') qs"
  have "set ?ws \<subseteq> lang (Seq rx_qualifier (Rep (Cls ''.'') 1 1))"
    unfolding lang_qualifier_dot using qs(4) by auto
  moreover have "w = concat ?ws" "lo \<le> length ?ws" "length ?ws \<le> hi"
    using qs by (simp_all add: dotted_def)
  ultimately show "w \<in> lang (Rep (Seq rx_qualifier (Rep (Cls ''.'') 1 1)) lo hi)"
    unfolding lang.simps(3) by blast
qed

lemma lang_data_set: "lang rx_data_set = {s. dotted_name 2 22 s}"
proof (intro set_eqI iffI)
  fix s
  assume "s \<in> lang rx_data_set"
  then obtain u q where uq: "s = u @ q"
    "u \<in> lang (Rep (Seq rx_qualifier (Rep (Cls ''.'') 1 1)) 1 21)" "q \<in> lang rx_qualifier"
    unfolding rx_data_set_def lang.simps(2) by blast
  from uq(2) obtain qs where qs: "u = dotted qs" "1 \<le> length qs" "length qs \<le> 21"
    "\<forall>x\<in>set qs. valid_qualifier x"
    unfolding lang_dotted by blast
  have q: "valid_qualifier q"
    using uq(3) unfolding lang_qualifier by simp
  have "qualifiers s = qs @ [q]"
    unfolding uq(1) qs(1)
    by (rule qualifiers_dotted) (use qs(4) q valid_qualifier_chars(1) in blast)+
  with qs q show "s \<in> {s. dotted_name 2 22 s}"
    by (simp add: dotted_name_def list_all_iff)
next
  fix s
  assume "s \<in> {s. dotted_name 2 22 s}"
  then have d: "2 \<le> length (qualifiers s)" "length (qualifiers s) \<le> 22"
    "\<forall>q\<in>set (qualifiers s). valid_qualifier q"
    by (simp_all add: dotted_name_def list_all_iff)
  let ?qs = "butlast (qualifiers s)"
  let ?q = "last (qualifiers s)"
  have ne: "qualifiers s \<noteq> []"
    by (rule qualifiers_not_Nil)
  have len: "1 \<le> length ?qs" "length ?qs \<le> 21"
    using d by simp_all
  have all: "\<forall>x\<in>set ?qs. valid_qualifier x"
    using d(3) by (meson in_set_butlastD)
  have "valid_qualifier ?q"
    using d(3) ne by simp
  then have q: "?q \<in> lang rx_qualifier"
    unfolding lang_qualifier by simp
  have "dotted ?qs \<in> lang (Rep (Seq rx_qualifier (Rep (Cls ''.'') 1 1)) 1 21)"
    unfolding lang_dotted using len all by blast
  with q have "dotted ?qs @ ?q \<in> lang rx_data_set"
    unfolding rx_data_set_def lang.simps(2) by blast
  then show "s \<in> lang rx_data_set"
    by (simp add: dotted_qualifiers)
qed

lemma dotted_name_no_paren:
  assumes "dotted_name lo hi b"
  shows "CHR ''('' \<notin> set b"
proof
  assume "CHR ''('' \<in> set b"
  then obtain q where "q \<in> set (qualifiers b)" "CHR ''('' \<in> set q"
    using qualifiers_chars [of "CHR ''(''" b] by auto
  moreover from assms have "\<forall>q\<in>set (qualifiers b). valid_qualifier q"
    by (simp add: dotted_name_def list_all_iff)
  ultimately show False
    using valid_qualifier_chars(2) by blast
qed

lemma name_with_member_iff:
  "name_with_member lo hi s \<longleftrightarrow>
     (\<exists>b m. s = b @ ''('' @ m @ '')'' \<and> dotted_name lo hi b \<and> valid_member m)"
proof
  assume nm: "name_with_member lo hi s"
  let ?b = "takeWhile (\<lambda>c. c \<noteq> CHR ''('') s"
  let ?r = "dropWhile (\<lambda>c. c \<noteq> CHR ''('') s"
  from nm obtain p m where r: "?r = p # m" "m \<noteq> []" "last m = CHR '')''"
    "valid_member (butlast m)" and b: "dotted_name lo hi ?b"
    by (auto simp: name_with_member_def Let_def split: list.splits)
  have "p = CHR ''(''"
    using r(1) hd_dropWhile [of "\<lambda>c. c \<noteq> CHR ''(''" s] by (metis list.sel(1) list.distinct(1))
  moreover have "m = butlast m @ '')''"
    using r(2,3) by (metis append_butlast_last_id)
  moreover have "s = ?b @ ?r"
    by simp
  ultimately have "s = ?b @ ''('' @ butlast m @ '')''"
    using r(1) by (metis append_Cons append_Nil)
  with b r(4) show "\<exists>b m. s = b @ ''('' @ m @ '')'' \<and> dotted_name lo hi b \<and> valid_member m"
    by blast
next
  assume "\<exists>b m. s = b @ ''('' @ m @ '')'' \<and> dotted_name lo hi b \<and> valid_member m"
  then obtain b m where s: "s = b @ ''('' @ m @ '')''" and b: "dotted_name lo hi b"
    and m: "valid_member m"
    by blast
  have "\<forall>c\<in>set b. c \<noteq> CHR ''(''"
    using dotted_name_no_paren [OF b] by blast
  then have "takeWhile (\<lambda>c. c \<noteq> CHR ''('') s = b"
    "dropWhile (\<lambda>c. c \<noteq> CHR ''('') s = CHR ''('' # (m @ '')'')"
    unfolding s by (simp_all add: takeWhile_append2 dropWhile_append2)
  with b m show "name_with_member lo hi s"
    by (simp add: name_with_member_def Let_def)
qed

lemma lang_data_set_member:
  "lang rx_data_set_member = {s. dotted_name 2 22 s \<or> name_with_member 2 22 s}"
proof -
  have opt: "lang (Rep rx_member_suffix 0 1) = {[]} \<union> lang rx_member_suffix"
  proof (intro set_eqI iffI)
    fix w
    assume "w \<in> lang (Rep rx_member_suffix 0 1)"
    then obtain ws where ws: "w = concat ws" "length ws \<le> 1" "set ws \<subseteq> lang rx_member_suffix"
      by auto
    then show "w \<in> {[]} \<union> lang rx_member_suffix"
      by (cases ws) auto
  next
    fix w
    assume "w \<in> {[]} \<union> lang rx_member_suffix"
    then consider "w = concat []" | "w = concat [w]" "w \<in> lang rx_member_suffix"
      by auto
    then show "w \<in> lang (Rep rx_member_suffix 0 1)"
    proof cases
      case 1
      then show ?thesis
        unfolding lang.simps(3) by (intro CollectI exI [of _ "[]"]) simp
    next
      case 2
      then show ?thesis
        unfolding lang.simps(3) by (intro CollectI exI [of _ "[w]"]) simp
    qed
  qed
  have "s \<in> lang rx_data_set_member \<longleftrightarrow> dotted_name 2 22 s \<or> name_with_member 2 22 s" for s
  proof -
    have "s \<in> lang rx_data_set_member \<longleftrightarrow>
        (\<exists>b v. s = b @ v \<and> dotted_name 2 22 b \<and> (v = [] \<or> v \<in> lang rx_member_suffix))"
      unfolding rx_data_set_member_def lang.simps(2) opt lang_data_set by blast
    also have "\<dots> \<longleftrightarrow> dotted_name 2 22 s \<or>
        (\<exists>b m. s = b @ ''('' @ m @ '')'' \<and> dotted_name 2 22 b \<and> valid_member m)"
      unfolding lang_member_suffix by (auto; blast)
    finally show ?thesis
      unfolding name_with_member_iff .
  qed
  then show ?thesis
    by blast
qed

lemma check_data_set_name_iff:
  "check_data_set_name s deps =
     (if dotted_name 2 22 s \<or> (dep_type deps = Some ''MEMBER'' \<and> name_with_member 2 22 s)
      then Inr (Some (upper s))
      else Inl (ValueError (''Value '' @ s @ '' is invalid for data set argument.'')))"
proof -
  have 1: "fullmatch rx_data_set s \<longleftrightarrow> dotted_name 2 22 s"
    by (simp add: fullmatch_iff lang_data_set)
  have 2: "fullmatch rx_data_set_member s \<longleftrightarrow> dotted_name 2 22 s \<or> name_with_member 2 22 s"
    by (simp add: fullmatch_iff lang_data_set_member)
  show ?thesis
    unfolding check_data_set_name_def 1 2 by auto
qed

section \<open>The data set name validator\<close>

lemma valid_qualifier_length: "valid_qualifier q \<Longrightarrow> length q \<le> 8"
  by (auto simp: valid_qualifier_def split: list.splits)

lemma accepted_base:
  assumes "dotted_name lo hi s \<or> name_with_member lo hi s"
  shows "dotted_name lo hi (takeWhile (\<lambda>c. c \<noteq> CHR ''('') s)"
  using assms
proof
  assume d: "dotted_name lo hi s"
  then have "\<forall>c\<in>set s. c \<noteq> CHR ''(''"
    using dotted_name_no_paren by blast
  then have tw: "takeWhile (\<lambda>c. c \<noteq> CHR ''('') s = s"
    by (rule takeWhile_eq_all_conv [THEN iffD2])
  from d show ?thesis
    by (simp only: tw)
next
  assume "name_with_member lo hi s"
  then show ?thesis
    by (simp add: name_with_member_def Let_def)
qed

text \<open>
  C7, as the code has it: the validator accepts exactly the names of two to 22
  qualifiers separated by dots, each of one to eight letters (of either case; the
  result is in upper case), digits, national characters and hyphens, the first a
  letter or a national character, and, when the type is MEMBER only, such a name
  followed by a member name in parentheses. A name with a qualifier longer than
  eight characters, or with more than 22 qualifiers, is rejected.
\<close>

theorem data_set_name_format:
  assumes "\<not> dep_batch deps"
  shows "data_set_name F (Some s) deps st =
           (if dotted_name 2 22 s \<or> (dep_type deps = Some ''MEMBER'' \<and> name_with_member 2 22 s)
            then Inr (Some (upper s))
            else Inl (ValueError (''Value '' @ s @ '' is invalid for data set argument.'')), st) \<and>
         ((\<exists>q\<in>set (qualifiers (takeWhile (\<lambda>c. c \<noteq> CHR ''('') s)). 8 < length q) \<longrightarrow>
            data_set_name F (Some s) deps st =
              (Inl (ValueError (''Value '' @ s @ '' is invalid for data set argument.'')), st)) \<and>
         (22 < length (qualifiers (takeWhile (\<lambda>c. c \<noteq> CHR ''('') s)) \<longrightarrow>
            data_set_name F (Some s) deps st =
              (Inl (ValueError (''Value '' @ s @ '' is invalid for data set argument.'')), st))"
proof -
  let ?base = "takeWhile (\<lambda>c. c \<noteq> CHR ''('') s"
  let ?ok = "dotted_name 2 22 s \<or> (dep_type deps = Some ''MEMBER'' \<and> name_with_member 2 22 s)"
  let ?err = "Inl (ValueError (''Value '' @ s @ '' is invalid for data set argument.''))"
  have eq: "data_set_name F (Some s) deps st = (if ?ok then Inr (Some (upper s)) else ?err, st)"
    using assms by (simp add: data_set_name_def check_data_set_name_iff)
  have base: "dotted_name 2 22 ?base" if ?ok
    using that accepted_base [of 2 22 s] by blast
  have long: "\<not> ?ok" if "\<exists>q\<in>set (qualifiers ?base). 8 < length q"
  proof
    assume ?ok
    then have "\<forall>q\<in>set (qualifiers ?base). length q \<le> 8"
      using base valid_qualifier_length by (auto simp: dotted_name_def list_all_iff)
    with that show False
      by fastforce
  qed
  have many: "\<not> ?ok" if "22 < length (qualifiers ?base)"
  proof
    assume ?ok
    then have "length (qualifiers ?base) \<le> 22"
      using base by (simp add: dotted_name_def)
    with that show False
      by simp
  qed
  have rejected: "data_set_name F (Some s) deps st = (?err, st)" if "\<not> ?ok"
    using eq that by auto
  from eq rejected long many show ?thesis
    by blast
qed

theorem data_set_name_format_witness:
  "fst (data_set_name SIM (Some ''A.B.C'') no_deps (start (sim0 []))) = Inr (Some ''A.B.C'') \<and>
   fst (data_set_name SIM (Some ''A1-B2.C3(MEM1)'') (no_deps\<lparr>dep_type := Some ''MEMBER''\<rparr>)
          (start (sim0 []))) = Inr (Some ''A1-B2.C3(MEM1)'') \<and>
   fst (data_set_name SIM (Some ''A.ABCDEFGHI'') no_deps (start (sim0 []))) =
     Inl (ValueError ''Value A.ABCDEFGHI is invalid for data set argument.'') \<and>
   fst (data_set_name SIM (Some ''A.B.C.D.E.F.G.H.I.J.K.L.M.N.O.P.Q.R.S.T.U.V.W'') no_deps
          (start (sim0 []))) =
     Inl (ValueError
       ''Value A.B.C.D.E.F.G.H.I.J.K.L.M.N.O.P.Q.R.S.T.U.V.W is invalid for data set argument.'')"
proof -
  let ?st = "start (sim0 [])"
  let ?member = "no_deps\<lparr>dep_type := Some ''MEMBER''\<rparr>"
  have nb: "\<not> dep_batch no_deps" "\<not> dep_batch ?member"
    by (simp_all add: no_deps_def)
  have a: "dotted_name 2 22 ''A.B.C''" "upper ''A.B.C'' = ''A.B.C''"
    by code_simp+
  have b: "dep_type ?member = Some ''MEMBER''" "name_with_member 2 22 ''A1-B2.C3(MEM1)''"
    "upper ''A1-B2.C3(MEM1)'' = ''A1-B2.C3(MEM1)''"
    by code_simp+
  have c: "\<exists>q\<in>set (qualifiers (takeWhile (\<lambda>c. c \<noteq> CHR ''('') ''A.ABCDEFGHI'')). 8 < length q"
    by code_simp
  have d: "22 < length (qualifiers (takeWhile (\<lambda>c. c \<noteq> CHR ''('')
      ''A.B.C.D.E.F.G.H.I.J.K.L.M.N.O.P.Q.R.S.T.U.V.W''))"
    by code_simp
  from data_set_name_format [OF nb(1), of SIM "''A.B.C''" ?st] a
  have 1: "fst (data_set_name SIM (Some ''A.B.C'') no_deps ?st) = Inr (Some ''A.B.C'')"
    by simp
  from data_set_name_format [OF nb(2), of SIM "''A1-B2.C3(MEM1)''" ?st] b
  have 2: "fst (data_set_name SIM (Some ''A1-B2.C3(MEM1)'') ?member ?st) =
      Inr (Some ''A1-B2.C3(MEM1)'')"
    by simp
  from data_set_name_format [OF nb(1), of SIM "''A.ABCDEFGHI''" ?st,
      THEN conjunct2, THEN conjunct1, THEN mp, OF c]
  have 3: "fst (data_set_name SIM (Some ''A.ABCDEFGHI'') no_deps ?st) =
      Inl (ValueError ''Value A.ABCDEFGHI is invalid for data set argument.'')"
    by simp
  from data_set_name_format [OF nb(1), of SIM
      "''A.B.C.D.E.F.G.H.I.J.K.L.M.N.O.P.Q.R.S.T.U.V.W''" ?st,
      THEN conjunct2, THEN conjunct2, THEN mp, OF d]
  have 4: "fst (data_set_name SIM (Some ''A.B.C.D.E.F.G.H.I.J.K.L.M.N.O.P.Q.R.S.T.U.V.W'')
      no_deps ?st) = Inl (ValueError
        ''Value A.B.C.D.E.F.G.H.I.J.K.L.M.N.O.P.Q.R.S.T.U.V.W is invalid for data set argument.'')"
    by simp
  from 1 2 3 4 show ?thesis
    by simp
qed

text \<open>
  The claim as it was stated fails: the name \<open>A\<close> of one valid qualifier is
  rejected; \<open>A1-B2.C3(MEM1)\<close> is rejected when the type is not MEMBER; and \<open>a.b\<close>,
  whose letters are not among A-Z, is accepted.
\<close>

theorem data_set_name_claimed_format_fails:
  "dotted_name 1 22 ''A'' \<and>
   fst (data_set_name SIM (Some ''A'') no_deps (start (sim0 []))) =
     Inl (ValueError ''Value A is invalid for data set argument.'') \<and>
   name_with_member 1 22 ''A1-B2.C3(MEM1)'' \<and>
   fst (data_set_name SIM (Some ''A1-B2.C3(MEM1)'') no_deps (start (sim0 []))) =
     Inl (ValueError ''Value A1-B2.C3(MEM1) is invalid for data set argument.'') \<and>
   CHR ''a'' \<notin> set upper_chars \<and>
   fst (data_set_name SIM (Some ''a.b'') no_deps (start (sim0 []))) = Inr (Some ''A.B'')"
  by code_simp

end
